theory Spec2Isabelle
  imports Main "HOL-Library.Word" "HOL-Library.Sublist"
begin

section \<open>JavaScript values and exceptions\<close>

text \<open>
  The webhook handler receives its event as the result of \<^verbatim>\<open>JSON.parse\<close> and reads it
  untyped (\<^verbatim>\<open>event: any\<close>), so the model keeps JavaScript values: the JSON values and
  \<^verbatim>\<open>undefined\<close>. Numbers are integers here (epoch seconds, amounts in cents); an object
  lists each key once, as \<^verbatim>\<open>JSON.parse\<close> delivers it.
\<close>

datatype jsval =
    JUndefined
  | JNull
  | JBool bool
  | JNum int
  | JStr string
  | JArr "jsval list"
  | JObj "(string \<times> jsval) list"

datatype exn =
    SyntaxError string
  | TypeError string
  | RangeError string
  | Error string

text \<open>\<^verbatim>\<open>error.message\<close>; every exception of the model is an \<^verbatim>\<open>instanceof Error\<close>.\<close>

fun exn_message :: "exn \<Rightarrow> string" where
  "exn_message (SyntaxError m) = m"
| "exn_message (TypeError m) = m"
| "exn_message (RangeError m) = m"
| "exn_message (Error m) = m"

fun truthy :: "jsval \<Rightarrow> bool" where
  "truthy JUndefined = False"
| "truthy JNull = False"
| "truthy (JBool b) = b"
| "truthy (JNum n) = (n \<noteq> 0)"
| "truthy (JStr s) = (s \<noteq> [])"
| "truthy (JArr xs) = True"
| "truthy (JObj kvs) = True"

text \<open>\<^verbatim>\<open>a || b\<close>\<close>

definition js_or :: "jsval \<Rightarrow> jsval \<Rightarrow> jsval" where
  "js_or a b = (if truthy a then a else b)"

text \<open>
  \<^verbatim>\<open>v.k\<close>: reading a property of \<^verbatim>\<open>undefined\<close> or \<^verbatim>\<open>null\<close> throws a TypeError, an
  object yields the member or \<^verbatim>\<open>undefined\<close>, and the other values have none of the
  property names the handlers read.
\<close>

fun get :: "jsval \<Rightarrow> string \<Rightarrow> exn + jsval" where
  "get JUndefined k =
     Inl (TypeError (''Cannot read properties of undefined (reading '' @ [CHR 0x27] @ k
                     @ [CHR 0x27] @ '')''))"
| "get JNull k =
     Inl (TypeError (''Cannot read properties of null (reading '' @ [CHR 0x27] @ k
                     @ [CHR 0x27] @ '')''))"
| "get (JObj kvs) k = Inr (case map_of kvs k of None \<Rightarrow> JUndefined | Some v \<Rightarrow> v)"
| "get v k = Inr JUndefined"

text \<open>\<^verbatim>\<open>v?.k\<close>\<close>

fun get_opt :: "jsval \<Rightarrow> string \<Rightarrow> jsval" where
  "get_opt (JObj kvs) k = (case map_of kvs k of None \<Rightarrow> JUndefined | Some v \<Rightarrow> v)"
| "get_opt v k = JUndefined"

section \<open>Hex encoding, buffers and the constant-time comparison\<close>

type_synonym buffer = "8 word list"

definition hex_char :: "nat \<Rightarrow> char" where
  "hex_char n = ''0123456789abcdef'' ! n"

text \<open>\<^verbatim>\<open>.digest('hex')\<close>: two lower-case hexadecimal characters per byte.\<close>

definition digest_hex :: "buffer \<Rightarrow> string" where
  "digest_hex bs = concat (map (\<lambda>b. [hex_char (unat b div 16), hex_char (unat b mod 16)]) bs)"

definition unhex :: "char \<Rightarrow> nat option" where
  "unhex c =
     (let n = (of_char c :: nat) in
      if 48 \<le> n \<and> n \<le> 57 then Some (n - 48)
      else if 97 \<le> n \<and> n \<le> 102 then Some (n - 87)
      else if 65 \<le> n \<and> n \<le> 70 then Some (n - 55)
      else None)"

text \<open>
  \<^verbatim>\<open>Buffer.from(s, 'hex')\<close> never throws: it decodes pairs of hexadecimal characters and
  stops at the first pair that is not one, and a trailing single character is dropped.
\<close>

fun Buffer_from_hex :: "string \<Rightarrow> buffer" where
  "Buffer_from_hex (a # b # rest) =
     (case (unhex a, unhex b) of
        (Some x, Some y) \<Rightarrow> of_nat (16 * x + y) # Buffer_from_hex rest
      | _ \<Rightarrow> [])"
| "Buffer_from_hex s = []"

text \<open>\<^verbatim>\<open>s.replace(pat, rep)\<close> with a string pattern: the first occurrence only.\<close>

fun replace :: "string \<Rightarrow> string \<Rightarrow> string \<Rightarrow> string" where
  "replace pat rep [] = (if pat = [] then rep else [])"
| "replace pat rep (c # cs) =
     (if prefix pat (c # cs) then rep @ drop (length pat) (c # cs)
      else c # replace pat rep cs)"

text \<open>
  \<^verbatim>\<open>crypto.timingSafeEqual(a, b)\<close>: a RangeError when the byte lengths differ, otherwise
  whether the buffers hold the same bytes. Its running time is not part of the model.
\<close>

definition timingSafeEqual :: "buffer \<Rightarrow> buffer \<Rightarrow> exn + bool" where
  "timingSafeEqual a b =
     (if length a \<noteq> length b
      then Inl (RangeError ''Input buffers must have the same byte length'')
      else Inr (a = b))"

section \<open>The data store\<close>

text \<open>
  The tables of \<^verbatim>\<open>supabase/schema.sql\<close> that the webhook path reads or writes, with the
  columns it touches. A \<^verbatim>\<open>UUID\<close> key is a number, \<^verbatim>\<open>gen_random_uuid()\<close> a number larger
  than every key of the table; a timestamp is its instant in milliseconds since the epoch
  (what \<^verbatim>\<open>toISOString\<close> prints).
\<close>

type_synonym uuid = nat

record customer =
  cust_id :: uuid
  cust_user_id :: "uuid option"
  cust_dodo_customer_id :: string

record subscription =
  sub_id :: uuid
  sub_user_id :: "uuid option"
  sub_customer_id :: "uuid option"
  dodo_subscription_id :: string
  product_id :: "string option"
  price_id :: "string option"
  sub_status :: string
  current_period_start :: "int option"
  current_period_end :: "int option"
  cancel_at_period_end :: bool
  sub_metadata :: jsval

text \<open>The payload \<^verbatim>\<open>savePaymentEvent\<close> builds for the \<^verbatim>\<open>event_data\<close> column.\<close>

record payment_audit =
  au_payment_id :: jsval
  au_status :: jsval
  au_amount :: jsval
  au_currency :: jsval
  au_customer_id :: "uuid option"
  au_dodo_customer_id :: jsval
  au_failure_reason :: jsval
  au_metadata :: jsval

datatype event_payload = RawEvent jsval | Audit payment_audit

record payment_event =
  pe_id :: uuid
  event_type :: string
  event_data :: event_payload
  dodo_event_id :: "string option"
  processed :: bool
  processed_at :: "int option"
  error_message :: "string option"
  retry_count :: int

record payment =
  pay_id :: uuid
  dodo_payment_id :: string
  pay_status :: string
  pay_amount :: int
  pay_currency :: string
  pay_created_at :: int
  pay_updated_at :: int

record pg_error =
  pg_code :: string
  pg_message :: string

text \<open>
  The state of the store: its tables, and \<open>faults\<close>, the outcome the transport gives to
  each of the coming requests in turn (\<open>Some e\<close>: the request fails with \<open>e\<close> and changes
  nothing); once the list is used up every request is served.
\<close>

record db =
  customers :: "customer list"
  subscriptions :: "subscription list"
  payment_events :: "payment_event list"
  payments :: "payment list"
  faults :: "pg_error option list"

definition gen_random_uuid :: "uuid list \<Rightarrow> uuid" where
  "gen_random_uuid used = Suc (fold max used 0)"

type_synonym 'a query = "db \<Rightarrow> (pg_error + 'a) \<times> db"

definition request :: "'a query \<Rightarrow> 'a query" where
  "request served d =
     (case faults d of
        [] \<Rightarrow> served d
      | None # rest \<Rightarrow> served (d\<lparr>faults := rest\<rparr>)
      | Some err # rest \<Rightarrow> (Inl err, d\<lparr>faults := rest\<rparr>))"

definition PGRST116 :: pg_error where
  "PGRST116 = \<lparr>pg_code = ''PGRST116'',
               pg_message = ''JSON object requested, multiple (or no) rows returned''\<rparr>"

definition unique_violation :: "string \<Rightarrow> pg_error" where
  "unique_violation constraint =
     \<lparr>pg_code = ''23505'',
      pg_message = ''duplicate key value violates unique constraint \"'' @ constraint @ ''\"''\<rparr>"

definition not_null_violation :: "string \<Rightarrow> string \<Rightarrow> pg_error" where
  "not_null_violation column relation =
     \<lparr>pg_code = ''23502'',
      pg_message = ''null value in column \"'' @ column @ ''\" of relation \"'' @ relation
                   @ ''\" violates not-null constraint''\<rparr>"

definition invalid_input :: "string \<Rightarrow> pg_error" where
  "invalid_input column_type =
     \<lparr>pg_code = ''22P02'', pg_message = ''invalid input syntax for type '' @ column_type\<rparr>"

definition datetime_out_of_range :: pg_error where
  "datetime_out_of_range = \<lparr>pg_code = ''22008'', pg_message = ''timestamp out of range''\<rparr>"

text \<open>\<^verbatim>\<open>.select('*').single()\<close>: exactly one row, or the error \<^verbatim>\<open>PGRST116\<close>.\<close>

definition single :: "'r list \<Rightarrow> pg_error + 'r" where
  "single rows = (case rows of [r] \<Rightarrow> Inr r | _ \<Rightarrow> Inl PGRST116)"

section \<open>Asynchronous code: state and exceptions\<close>

type_synonym 'a io = "db \<Rightarrow> (exn + 'a) \<times> db"

definition resolve :: "'a \<Rightarrow> 'a io" where
  "resolve x d = (Inr x, d)"

definition throw :: "exn \<Rightarrow> 'a io" where
  "throw e d = (Inl e, d)"

text \<open>\<^verbatim>\<open>const x = await m; k x\<close>\<close>

definition await :: "'a io \<Rightarrow> ('a \<Rightarrow> 'b io) \<Rightarrow> 'b io" where
  "await m k d = (case m d of (Inl e, d') \<Rightarrow> (Inl e, d') | (Inr x, d') \<Rightarrow> k x d')"

text \<open>\<^verbatim>\<open>try { m } catch (error) { h error }\<close>\<close>

definition try_catch :: "'a io \<Rightarrow> (exn \<Rightarrow> 'a io) \<Rightarrow> 'a io" where
  "try_catch m h d = (case m d of (Inl e, d') \<Rightarrow> h e d' | (Inr x, d') \<Rightarrow> (Inr x, d'))"

text \<open>A computation that touches no state: it returns or throws.\<close>

definition sync :: "exn + 'a \<Rightarrow> 'a io" where
  "sync r d = (r, d)"

text \<open>\<^verbatim>\<open>const { data, error } = await q; k (data, error)\<close>\<close>

definition await_query :: "'a query \<Rightarrow> (pg_error + 'a \<Rightarrow> 'b io) \<Rightarrow> 'b io" where
  "await_query q k d = (case q d of (res, d') \<Rightarrow> k res d')"

section \<open>Configuration and the outside world\<close>

text \<open>
  What the code takes from its libraries and its surroundings: the configuration
  (\<^verbatim>\<open>config.dodo\<close>), \<^verbatim>\<open>crypto.createHmac('sha256', key).update(payload).digest()\<close>,
  \<^verbatim>\<open>JSON.parse\<close> and \<^verbatim>\<open>JSON.stringify\<close>, \<^verbatim>\<open>fetch\<close>, the clock, and the conversions
  of numbers, arrays and objects to a string and of strings, arrays and objects to a number.
  Of the store it takes what its input functions accept: how a value that is not a boolean
  reads in a \<^verbatim>\<open>BOOLEAN\<close> column (\<open>None\<close>: invalid input), and whether the ISO string of an
  instant is within a \<^verbatim>\<open>TIMESTAMP WITH TIME ZONE\<close> column's range.
\<close>

record http_response =
  resp_ok :: bool
  resp_status :: string
  resp_content_type :: "string option"
  resp_json :: "exn + jsval"
  resp_text :: "exn + string"

record env =
  webhookSecret :: "string option"
  apiKey :: string
  createHmac_sha256 :: "string \<Rightarrow> string \<Rightarrow> buffer"
  JSON_parse :: "string \<Rightarrow> exn + jsval"
  JSON_stringify :: "jsval \<Rightarrow> string"
  fetch :: "string \<Rightarrow> exn + http_response"
  Date_now :: int
  render_text :: "jsval \<Rightarrow> string"
  parse_number :: "jsval \<Rightarrow> int option"
  boolean_input :: "jsval \<Rightarrow> bool option"
  timestamptz_input :: "int \<Rightarrow> bool"

text \<open>\<^verbatim>\<open>String(v)\<close>, as in a template literal or a query filter.\<close>

fun js_String :: "env \<Rightarrow> jsval \<Rightarrow> string" where
  "js_String env (JStr s) = s"
| "js_String env JUndefined = ''undefined''"
| "js_String env JNull = ''null''"
| "js_String env (JBool b) = (if b then ''true'' else ''false'')"
| "js_String env v = render_text env v"

text \<open>\<^verbatim>\<open>Number(v)\<close>; \<open>None\<close> is \<^verbatim>\<open>NaN\<close>.\<close>

fun js_Number :: "env \<Rightarrow> jsval \<Rightarrow> int option" where
  "js_Number env (JNum n) = Some n"
| "js_Number env JUndefined = None"
| "js_Number env JNull = Some 0"
| "js_Number env (JBool b) = Some (if b then 1 else 0)"
| "js_Number env v = parse_number env v"

text \<open>
  \<^verbatim>\<open>new Date(seconds * 1000).toISOString()\<close>: a RangeError for \<^verbatim>\<open>NaN\<close> and for an
  instant outside the range of \<^verbatim>\<open>Date\<close>.
\<close>

definition toISOString :: "env \<Rightarrow> jsval \<Rightarrow> exn + int" where
  "toISOString env seconds =
     (case js_Number env seconds of
        None \<Rightarrow> Inl (RangeError ''Invalid time value'')
      | Some n \<Rightarrow>
          if \<bar>n * 1000\<bar> > 8640000000000000 then Inl (RangeError ''Invalid time value'')
          else Inr (n * 1000))"

text \<open>
  What a \<^verbatim>\<open>TEXT\<close> column receives for a value sent in the request body: \<^verbatim>\<open>undefined\<close>
  (the key is left out) and \<^verbatim>\<open>null\<close> are \<^verbatim>\<open>NULL\<close>.
\<close>

definition text_column :: "env \<Rightarrow> jsval \<Rightarrow> string option" where
  "text_column env v = (if v = JUndefined \<or> v = JNull then None else Some (js_String env v))"

text \<open>What a \<^verbatim>\<open>BOOLEAN\<close> column receives for a value sent in the request body.\<close>

definition boolean_column :: "env \<Rightarrow> jsval \<Rightarrow> bool option" where
  "boolean_column env v = (case v of JBool b \<Rightarrow> Some b | _ \<Rightarrow> boolean_input env v)"

section \<open>Signature verification (\<^verbatim>\<open>webhooks/handler.ts\<close>)\<close>

definition verifyWebhookSignature :: "env \<Rightarrow> string \<Rightarrow> string \<Rightarrow> exn + bool" where
  "verifyWebhookSignature env payload signature =
     (case webhookSecret env of
        None \<Rightarrow> Inr True
      | Some secret \<Rightarrow>
          if secret = [] then Inr True
          else
            (let expectedSignature = digest_hex (createHmac_sha256 env secret payload) in
             case timingSafeEqual (Buffer_from_hex (replace ''sha256='' [] signature))
                    (Buffer_from_hex expectedSignature) of
               Inl error \<Rightarrow> Inr False
             | Inr equal \<Rightarrow> Inr equal))"

section \<open>Database operations (\<^verbatim>\<open>db/client.ts\<close>)\<close>

record subscription_data =
  sd_user_id :: "uuid option"
  sd_customer_id :: uuid
  sd_dodo_subscription_id :: jsval
  sd_product_id :: jsval
  sd_price_id :: jsval
  sd_status :: string
  sd_current_period_start :: int
  sd_current_period_end :: int
  sd_cancel_at_period_end :: jsval
  sd_metadata :: jsval

text \<open>
  \<^verbatim>\<open>.from('subscriptions').insert(subscriptionData).select('*').single()\<close>, under
  \<^verbatim>\<open>dodo_subscription_id TEXT UNIQUE NOT NULL\<close>, with \<^verbatim>\<open>cancel_at_period_end BOOLEAN\<close> and
  the two period columns \<^verbatim>\<open>TIMESTAMP WITH TIME ZONE\<close>. The two foreign keys are taken from
  a row of \<^verbatim>\<open>customers\<close> and hold with that table's own.
\<close>

definition insert_subscription :: "env \<Rightarrow> subscription_data \<Rightarrow> subscription query" where
  "insert_subscription env sd =
     request (\<lambda>d.
       case boolean_column env (sd_cancel_at_period_end sd) of
         None \<Rightarrow> (Inl (invalid_input ''boolean''), d)
       | Some cancel \<Rightarrow>
           if \<not> (timestamptz_input env (sd_current_period_start sd)
                 \<and> timestamptz_input env (sd_current_period_end sd))
           then (Inl datetime_out_of_range, d)
           else
             (case text_column env (sd_dodo_subscription_id sd) of
                None \<Rightarrow> (Inl (not_null_violation ''dodo_subscription_id'' ''subscriptions''), d)
              | Some sid \<Rightarrow>
                  if sid \<in> set (map dodo_subscription_id (subscriptions d))
                  then (Inl (unique_violation ''subscriptions_dodo_subscription_id_key''), d)
                  else
                    (let row = \<lparr>sub_id = gen_random_uuid (map sub_id (subscriptions d)),
                                sub_user_id = sd_user_id sd,
                                sub_customer_id = Some (sd_customer_id sd),
                                dodo_subscription_id = sid,
                                product_id = text_column env (sd_product_id sd),
                                price_id = text_column env (sd_price_id sd),
                                sub_status = sd_status sd,
                                current_period_start = Some (sd_current_period_start sd),
                                current_period_end = Some (sd_current_period_end sd),
                                cancel_at_period_end = cancel,
                                sub_metadata = sd_metadata sd\<rparr>
                     in (Inr row, d\<lparr>subscriptions := subscriptions d @ [row]\<rparr>))))"

definition saveSubscription :: "env \<Rightarrow> subscription_data \<Rightarrow> subscription io" where
  "saveSubscription env subscriptionData =
     await_query (insert_subscription env subscriptionData) (\<lambda>res.
       case res of
         Inl error \<Rightarrow> throw (Error (''Failed to save subscription: '' @ pg_message error))
       | Inr data \<Rightarrow> resolve data)"

text \<open>
  The \<^verbatim>\<open>updates\<close> object; a key that is absent (or \<^verbatim>\<open>undefined\<close>, which the request body
  leaves out) is \<open>JUndefined\<close> or \<open>None\<close>.
\<close>

record subscription_updates =
  upd_status :: jsval
  upd_current_period_start :: "int option"
  upd_current_period_end :: "int option"
  upd_cancel_at_period_end :: jsval
  upd_metadata :: jsval

definition no_updates :: subscription_updates where
  "no_updates = \<lparr>upd_status = JUndefined, upd_current_period_start = None,
                  upd_current_period_end = None, upd_cancel_at_period_end = JUndefined,
                  upd_metadata = JUndefined\<rparr>"

definition apply_updates :: "env \<Rightarrow> subscription_updates \<Rightarrow> subscription \<Rightarrow> subscription" where
  "apply_updates env u s =
     s\<lparr>sub_status := (case text_column env (upd_status u) of None \<Rightarrow> sub_status s | Some t \<Rightarrow> t),
       current_period_start :=
         (case upd_current_period_start u of None \<Rightarrow> current_period_start s | Some t \<Rightarrow> Some t),
       current_period_end :=
         (case upd_current_period_end u of None \<Rightarrow> current_period_end s | Some t \<Rightarrow> Some t),
       cancel_at_period_end :=
         (if upd_cancel_at_period_end u = JUndefined then cancel_at_period_end s
          else (case boolean_column env (upd_cancel_at_period_end u) of
                  None \<Rightarrow> cancel_at_period_end s
                | Some cancel \<Rightarrow> cancel)),
       sub_metadata := (if upd_metadata u = JUndefined then sub_metadata s else upd_metadata u)\<rparr>"

text \<open>The values of \<^verbatim>\<open>updates\<close> that the store's input functions refuse.\<close>

definition updates_refused :: "env \<Rightarrow> subscription_updates \<Rightarrow> pg_error option" where
  "updates_refused env u =
     (if upd_cancel_at_period_end u \<noteq> JUndefined
         \<and> boolean_column env (upd_cancel_at_period_end u) = None
      then Some (invalid_input ''boolean'')
      else if list_ex (\<lambda>t. \<not> timestamptz_input env t)
                (List.map_filter id [upd_current_period_start u, upd_current_period_end u])
      then Some datetime_out_of_range
      else None)"

text \<open>
  \<^verbatim>\<open>.from('subscriptions').update(updates).eq('dodo_subscription_id', id).select('*').single()\<close>:
  the store answers \<^verbatim>\<open>PGRST116\<close> and keeps nothing of the request unless exactly one row
  matches; \<^verbatim>\<open>status\<close> is \<^verbatim>\<open>NOT NULL\<close>.
\<close>

definition update_subscription :: "env \<Rightarrow> jsval \<Rightarrow> subscription_updates \<Rightarrow> subscription query" where
  "update_subscription env dodoSubscriptionId u =
     request (\<lambda>d.
       case updates_refused env u of
         Some refusal \<Rightarrow> (Inl refusal, d)
       | None \<Rightarrow>
           (case filter (\<lambda>s. dodo_subscription_id s = js_String env dodoSubscriptionId)
                   (subscriptions d) of
              [s] \<Rightarrow>
                if upd_status u = JNull
                then (Inl (not_null_violation ''status'' ''subscriptions''), d)
                else (Inr (apply_updates env u s),
                      d\<lparr>subscriptions :=
                          map (\<lambda>r. if dodo_subscription_id r = js_String env dodoSubscriptionId
                                    then apply_updates env u r else r) (subscriptions d)\<rparr>)
            | _ \<Rightarrow> (Inl PGRST116, d)))"

definition updateSubscription :: "env \<Rightarrow> jsval \<Rightarrow> subscription_updates \<Rightarrow> subscription io" where
  "updateSubscription env dodoSubscriptionId updates =
     await_query (update_subscription env dodoSubscriptionId updates) (\<lambda>res.
       case res of
         Inl error \<Rightarrow> throw (Error (''Failed to update subscription: '' @ pg_message error))
       | Inr data \<Rightarrow> resolve data)"

text \<open>\<^verbatim>\<open>.from('customers').select('*').eq('dodo_customer_id', id).single()\<close>\<close>

definition select_customer :: "env \<Rightarrow> jsval \<Rightarrow> customer query" where
  "select_customer env dodoCustomerId =
     request (\<lambda>d.
       (single (filter (\<lambda>c. cust_dodo_customer_id c = js_String env dodoCustomerId)
                  (customers d)), d))"

definition getCustomerByDodoId :: "env \<Rightarrow> jsval \<Rightarrow> customer option io" where
  "getCustomerByDodoId env dodoCustomerId =
     await_query (select_customer env dodoCustomerId) (\<lambda>res.
       case res of
         Inl error \<Rightarrow>
           if pg_code error \<noteq> ''PGRST116''
           then throw (Error (''Failed to get customer: '' @ pg_message error))
           else resolve None
       | Inr data \<Rightarrow> resolve (Some data))"

record event_log_data =
  el_event_type :: jsval
  el_event_data :: jsval
  el_dodo_event_id :: jsval
  el_processed :: "bool option"
  el_error_message :: "string option"

text \<open>
  \<^verbatim>\<open>.from('payment_events').insert({...eventData, processed: eventData.processed || false,
  retry_count: 0}).select('*').single()\<close>, under \<^verbatim>\<open>event_type TEXT NOT NULL\<close> and
  \<^verbatim>\<open>event_data JSONB NOT NULL\<close>.
\<close>

definition insert_event_log :: "env \<Rightarrow> event_log_data \<Rightarrow> payment_event query" where
  "insert_event_log env eventData =
     request (\<lambda>d.
       case text_column env (el_event_type eventData) of
         None \<Rightarrow> (Inl (not_null_violation ''event_type'' ''payment_events''), d)
       | Some ty \<Rightarrow>
           if el_event_data eventData = JUndefined \<or> el_event_data eventData = JNull
           then (Inl (not_null_violation ''event_data'' ''payment_events''), d)
           else
             (let row = \<lparr>pe_id = gen_random_uuid (map pe_id (payment_events d)),
                         event_type = ty,
                         event_data = RawEvent (el_event_data eventData),
                         dodo_event_id = text_column env (el_dodo_event_id eventData),
                         processed = (case el_processed eventData of None \<Rightarrow> False | Some b \<Rightarrow> b),
                         processed_at = None,
                         error_message = el_error_message eventData,
                         retry_count = 0\<rparr>
              in (Inr row, d\<lparr>payment_events := payment_events d @ [row]\<rparr>)))"

definition logPaymentEvent :: "env \<Rightarrow> event_log_data \<Rightarrow> payment_event io" where
  "logPaymentEvent env eventData =
     await_query (insert_event_log env eventData) (\<lambda>res.
       case res of
         Inl error \<Rightarrow> throw (Error (''Failed to log event: '' @ pg_message error))
       | Inr data \<Rightarrow> resolve data)"

text \<open>
  \<^verbatim>\<open>.from('payment_events').update({processed: true, processed_at: now}).eq('id', eventId)
  .select('*').single()\<close>
\<close>

definition update_event_processed :: "env \<Rightarrow> uuid \<Rightarrow> payment_event query" where
  "update_event_processed env eventId =
     request (\<lambda>d.
       case filter (\<lambda>r. pe_id r = eventId) (payment_events d) of
         [r] \<Rightarrow>
           (Inr (r\<lparr>processed := True, processed_at := Some (Date_now env)\<rparr>),
            d\<lparr>payment_events :=
                map (\<lambda>x. if pe_id x = eventId
                          then x\<lparr>processed := True, processed_at := Some (Date_now env)\<rparr>
                          else x) (payment_events d)\<rparr>)
       | _ \<Rightarrow> (Inl PGRST116, d))"

definition markEventProcessed :: "env \<Rightarrow> uuid \<Rightarrow> payment_event io" where
  "markEventProcessed env eventId =
     await_query (update_event_processed env eventId) (\<lambda>res.
       case res of
         Inl error \<Rightarrow> throw (Error (''Failed to mark event as processed: '' @ pg_message error))
       | Inr data \<Rightarrow> resolve data)"

record payment_event_record =
  pr_payment_id :: jsval
  pr_event_type :: jsval
  pr_status :: jsval
  pr_amount :: jsval
  pr_currency :: jsval
  pr_customer_id :: "uuid option"
  pr_dodo_customer_id :: jsval
  pr_failure_reason :: jsval
  pr_metadata :: jsval
  pr_processed_at :: int

definition insert_payment_event :: "env \<Rightarrow> payment_event_record \<Rightarrow> payment_event query" where
  "insert_payment_event env eventData =
     request (\<lambda>d.
       case text_column env (pr_event_type eventData) of
         None \<Rightarrow> (Inl (not_null_violation ''event_type'' ''payment_events''), d)
       | Some ty \<Rightarrow>
           (let row = \<lparr>pe_id = gen_random_uuid (map pe_id (payment_events d)),
                       event_type = ty,
                       event_data = Audit \<lparr>au_payment_id = pr_payment_id eventData,
                                           au_status = pr_status eventData,
                                           au_amount = pr_amount eventData,
                                           au_currency = pr_currency eventData,
                                           au_customer_id = pr_customer_id eventData,
                                           au_dodo_customer_id = pr_dodo_customer_id eventData,
                                           au_failure_reason = pr_failure_reason eventData,
                                           au_metadata = js_or (pr_metadata eventData) (JObj [])\<rparr>,
                       dodo_event_id = text_column env (pr_payment_id eventData),
                       processed = True,
                       processed_at = Some (pr_processed_at eventData),
                       error_message = None,
                       retry_count = 0\<rparr>
            in (Inr row, d\<lparr>payment_events := payment_events d @ [row]\<rparr>)))"

definition savePaymentEvent :: "env \<Rightarrow> payment_event_record \<Rightarrow> payment_event io" where
  "savePaymentEvent env eventData =
     await_query (insert_payment_event env eventData) (\<lambda>res.
       case res of
         Inl error \<Rightarrow> throw (Error (''Failed to save payment event: '' @ pg_message error))
       | Inr data \<Rightarrow> resolve data)"

text \<open>\<^verbatim>\<open>.from('payments').select('id').eq('dodo_payment_id', paymentId).single()\<close>\<close>

definition select_payment :: "env \<Rightarrow> jsval \<Rightarrow> uuid query" where
  "select_payment env paymentId =
     request (\<lambda>d.
       (single (map pay_id (filter (\<lambda>p. dodo_payment_id p = js_String env paymentId)
                               (payments d))), d))"

definition update_payment :: "env \<Rightarrow> jsval \<Rightarrow> string \<Rightarrow> payment query" where
  "update_payment env paymentId status =
     request (\<lambda>d.
       case filter (\<lambda>p. dodo_payment_id p = js_String env paymentId) (payments d) of
         [p] \<Rightarrow>
           (Inr (p\<lparr>pay_status := status, pay_updated_at := Date_now env\<rparr>),
            d\<lparr>payments :=
                map (\<lambda>x. if dodo_payment_id x = js_String env paymentId
                          then x\<lparr>pay_status := status, pay_updated_at := Date_now env\<rparr>
                          else x) (payments d)\<rparr>)
       | _ \<Rightarrow> (Inl PGRST116, d))"

text \<open>
  The insert of \<^verbatim>\<open>updatePaymentStatus\<close>, under \<^verbatim>\<open>dodo_payment_id TEXT UNIQUE NOT NULL\<close>.
\<close>

definition insert_payment :: "env \<Rightarrow> jsval \<Rightarrow> string \<Rightarrow> payment query" where
  "insert_payment env paymentId status =
     request (\<lambda>d.
       case text_column env paymentId of
         None \<Rightarrow> (Inl (not_null_violation ''dodo_payment_id'' ''payments''), d)
       | Some pid \<Rightarrow>
           if pid \<in> set (map dodo_payment_id (payments d))
           then (Inl (unique_violation ''payments_dodo_payment_id_key''), d)
           else
             (let row = \<lparr>pay_id = gen_random_uuid (map pay_id (payments d)),
                         dodo_payment_id = pid,
                         pay_status = status,
                         pay_amount = 0,
                         pay_currency = ''USD'',
                         pay_created_at = Date_now env,
                         pay_updated_at = Date_now env\<rparr>
              in (Inr row, d\<lparr>payments := payments d @ [row]\<rparr>)))"

definition updatePaymentStatus :: "env \<Rightarrow> jsval \<Rightarrow> string \<Rightarrow> payment io" where
  "updatePaymentStatus env paymentId status =
     await_query (select_payment env paymentId) (\<lambda>found.
       case found of
         Inl findError \<Rightarrow>
           if pg_code findError \<noteq> ''PGRST116''
           then throw (Error (''Failed to find payment: '' @ pg_message findError))
           else
             await_query (insert_payment env paymentId status) (\<lambda>res.
               case res of
                 Inl error \<Rightarrow>
                   throw (Error (''Failed to create payment record: '' @ pg_message error))
               | Inr data \<Rightarrow> resolve data)
       | Inr existingPayment \<Rightarrow>
           await_query (update_payment env paymentId status) (\<lambda>res.
             case res of
               Inl error \<Rightarrow>
                 throw (Error (''Failed to update payment status: '' @ pg_message error))
             | Inr data \<Rightarrow> resolve data))"

section \<open>The provider API (\<^verbatim>\<open>payments/payment.ts\<close>)\<close>

definition getBaseUrl :: "env \<Rightarrow> string" where
  "getBaseUrl env =
     (if prefix ''test_'' (apiKey env) then ''https://test.dodopayments.com''
      else if prefix ''live_'' (apiKey env) then ''https://live.dodopayments.com''
      else ''https://test.dodopayments.com'')"

text \<open>The \<^verbatim>\<open>errorDetails\<close> of a response that is not \<^verbatim>\<open>ok\<close>.\<close>

definition errorDetails :: "http_response \<Rightarrow> exn + jsval" where
  "errorDetails response =
     (case resp_content_type response of
        None \<Rightarrow> map_sum id JStr (resp_text response)
      | Some contentType \<Rightarrow>
          if contentType \<noteq> [] \<and> sublist ''application/json'' contentType
          then (case resp_json response of
                  Inr details \<Rightarrow> Inr details
                | Inl error \<Rightarrow> map_sum id JStr (resp_text response))
          else map_sum id JStr (resp_text response))"

definition getPaymentDetails :: "env \<Rightarrow> jsval \<Rightarrow> exn + jsval" where
  "getPaymentDetails env paymentId =
     (case fetch env (getBaseUrl env @ ''/payments/'' @ js_String env paymentId) of
        Inl error \<Rightarrow> Inl error
      | Inr response \<Rightarrow>
          if \<not> resp_ok response
          then (case errorDetails response of
                  Inl error \<Rightarrow> Inl error
                | Inr details \<Rightarrow>
                    Inl (Error (''Dodo API error ('' @ resp_status response @ ''): ''
                                @ JSON_stringify env details)))
          else resp_json response)"

section \<open>Payment handlers (\<^verbatim>\<open>payments/payment-handlers.ts\<close>)\<close>

record payment_event_data =
  ev_payment_id :: jsval
  ev_status :: jsval
  ev_amount :: jsval
  ev_currency :: jsval
  ev_customer_id :: jsval
  ev_failure_reason :: jsval
  ev_metadata :: jsval

text \<open>Both post-processing hooks only log inside their own \<^verbatim>\<open>try\<close>.\<close>

definition handlePostPaymentActions :: "jsval \<Rightarrow> customer option \<Rightarrow> unit io" where
  "handlePostPaymentActions paymentDetails customer = resolve ()"

definition handlePostPaymentFailureActions :: "payment_event_data \<Rightarrow> customer option \<Rightarrow> unit io" where
  "handlePostPaymentFailureActions eventData customer = resolve ()"

text \<open>
  Once \<^verbatim>\<open>paymentDetails.customer\<close> has been read, \<^verbatim>\<open>paymentDetails\<close> is neither
  \<^verbatim>\<open>undefined\<close> nor \<^verbatim>\<open>null\<close>, and its other properties are read with \<open>get_opt\<close>.
\<close>

definition handlePaymentSuccess :: "env \<Rightarrow> payment_event_data \<Rightarrow> unit io" where
  "handlePaymentSuccess env eventData =
     try_catch
       (await (sync (getPaymentDetails env (ev_payment_id eventData))) (\<lambda>paymentDetails.
        await (sync (get paymentDetails ''customer'')) (\<lambda>details_customer.
        await (if truthy (get_opt details_customer ''customer_id'')
               then getCustomerByDodoId env (get_opt details_customer ''customer_id'')
               else resolve None) (\<lambda>customer.
        await (updatePaymentStatus env (ev_payment_id eventData) ''succeeded'') (\<lambda>updated.
        await (savePaymentEvent env
                 \<lparr>pr_payment_id = ev_payment_id eventData,
                  pr_event_type = JStr ''payment.succeeded'',
                  pr_status = JStr ''succeeded'',
                  pr_amount = get_opt paymentDetails ''total_amount'',
                  pr_currency = js_or (get_opt paymentDetails ''currency'') (JStr ''USD''),
                  pr_customer_id = map_option cust_id customer,
                  pr_dodo_customer_id = get_opt details_customer ''customer_id'',
                  pr_failure_reason = JUndefined,
                  pr_metadata = js_or (get_opt paymentDetails ''metadata'') (JObj []),
                  pr_processed_at = Date_now env\<rparr>) (\<lambda>saved.
        handlePostPaymentActions paymentDetails customer))))))
       (\<lambda>error. throw error)"

definition handlePaymentFailure :: "env \<Rightarrow> payment_event_data \<Rightarrow> unit io" where
  "handlePaymentFailure env eventData =
     try_catch
       (await (try_catch (sync (getPaymentDetails env (ev_payment_id eventData)))
                 (\<lambda>error. resolve JNull)) (\<lambda>paymentDetails.
        let customerId = js_or (get_opt (get_opt paymentDetails ''customer'') ''customer_id'')
                           (ev_customer_id eventData) in
        await (if truthy customerId then getCustomerByDodoId env customerId
               else resolve None) (\<lambda>customer.
        await (updatePaymentStatus env (ev_payment_id eventData) ''failed'') (\<lambda>updated.
        await (savePaymentEvent env
                 \<lparr>pr_payment_id = ev_payment_id eventData,
                  pr_event_type = JStr ''payment.failed'',
                  pr_status = JStr ''failed'',
                  pr_amount = js_or (js_or (get_opt paymentDetails ''total_amount'')
                                       (ev_amount eventData)) (JNum 0),
                  pr_currency = js_or (js_or (get_opt paymentDetails ''currency'')
                                         (ev_currency eventData)) (JStr ''USD''),
                  pr_customer_id = map_option cust_id customer,
                  pr_dodo_customer_id = js_or customerId JNull,
                  pr_failure_reason = js_or (ev_failure_reason eventData) (JStr ''Unknown error''),
                  pr_metadata = js_or (js_or (get_opt paymentDetails ''metadata'')
                                         (ev_metadata eventData)) (JObj []),
                  pr_processed_at = Date_now env\<rparr>) (\<lambda>saved.
        handlePostPaymentFailureActions eventData customer)))))
       (\<lambda>error. throw error)"

definition handlePaymentStatusUpdate :: "env \<Rightarrow> payment_event_data \<Rightarrow> unit io" where
  "handlePaymentStatusUpdate env eventData =
     try_catch
       (await (updatePaymentStatus env (ev_payment_id eventData)
                 (js_String env (ev_status eventData))) (\<lambda>updated.
        await (savePaymentEvent env
                 \<lparr>pr_payment_id = ev_payment_id eventData,
                  pr_event_type = JStr (''payment.'' @ js_String env (ev_status eventData)),
                  pr_status = ev_status eventData,
                  pr_amount = js_or (ev_amount eventData) (JNum 0),
                  pr_currency = js_or (ev_currency eventData) (JStr ''USD''),
                  pr_customer_id = None,
                  pr_dodo_customer_id = js_or (ev_customer_id eventData) JNull,
                  pr_failure_reason = JUndefined,
                  pr_metadata = js_or (ev_metadata eventData) (JObj []),
                  pr_processed_at = Date_now env\<rparr>) (\<lambda>saved.
        resolve ())))
       (\<lambda>error. throw error)"

definition processPaymentWebhook :: "env \<Rightarrow> jsval \<Rightarrow> unit io" where
  "processPaymentWebhook env webhookEvent =
     try_catch
       (await (sync (get webhookEvent ''type'')) (\<lambda>etype.
        await (sync (get webhookEvent ''data'')) (\<lambda>data.
        await (sync (get data ''object'')) (\<lambda>paymentData.
        await (sync (get paymentData ''payment_id'')) (\<lambda>payment_id.
        let eventData =
              \<lparr>ev_payment_id = js_or payment_id (get_opt paymentData ''id''),
               ev_status = get_opt paymentData ''status'',
               ev_amount = get_opt paymentData ''amount'',
               ev_currency = get_opt paymentData ''currency'',
               ev_customer_id = get_opt paymentData ''customer_id'',
               ev_failure_reason = get_opt paymentData ''failure_reason'',
               ev_metadata = js_or (get_opt paymentData ''metadata'') (JObj [])\<rparr> in
        if etype = JStr ''payment.succeeded'' \<or> etype = JStr ''payment.completed''
        then handlePaymentSuccess env eventData
        else if etype = JStr ''payment.failed'' \<or> etype = JStr ''payment.declined''
        then handlePaymentFailure env eventData
        else if etype = JStr ''payment.pending''
        then handlePaymentStatusUpdate env (eventData\<lparr>ev_status := JStr ''pending''\<rparr>)
        else if etype = JStr ''payment.cancelled''
        then handlePaymentStatusUpdate env (eventData\<lparr>ev_status := JStr ''cancelled''\<rparr>)
        else
          await (savePaymentEvent env
                   \<lparr>pr_payment_id = ev_payment_id eventData,
                    pr_event_type = etype,
                    pr_status = js_or (ev_status eventData) (JStr ''unknown''),
                    pr_amount = js_or (ev_amount eventData) (JNum 0),
                    pr_currency = js_or (ev_currency eventData) (JStr ''USD''),
                    pr_customer_id = None,
                    pr_dodo_customer_id = js_or (ev_customer_id eventData) JNull,
                    pr_failure_reason = JUndefined,
                    pr_metadata = js_or (ev_metadata eventData) (JObj []),
                    pr_processed_at = Date_now env\<rparr>) (\<lambda>saved.
          resolve ()))))))
       (\<lambda>error. throw error)"

section \<open>The webhook handler (\<^verbatim>\<open>webhooks/handler.ts\<close>)\<close>

text \<open>\<^verbatim>\<open>event.data.object\<close>\<close>

definition data_object :: "jsval \<Rightarrow> exn + jsval" where
  "data_object event =
     (case get event ''data'' of Inl error \<Rightarrow> Inl error | Inr data \<Rightarrow> get data ''object'')"

text \<open>
  Each handler returns \<^verbatim>\<open>{ message }\<close>, modelled by the message. The handlers first log
  \<^verbatim>\<open>subscription.id\<close> (or \<^verbatim>\<open>event.data.object.id\<close>), which is where an event without
  \<^verbatim>\<open>data.object\<close> throws.
\<close>

definition handleSubscriptionActive :: "env \<Rightarrow> jsval \<Rightarrow> string io" where
  "handleSubscriptionActive env event =
     await (sync (data_object event)) (\<lambda>subscription.
     await (sync (get subscription ''id'')) (\<lambda>subscription_id.
     try_catch
       (await (getCustomerByDodoId env (get_opt subscription ''customer'')) (\<lambda>found.
        case found of
          None \<Rightarrow> resolve ''Customer not found''
        | Some customer \<Rightarrow>
            await (sync (toISOString env (get_opt subscription ''current_period_start''))) (\<lambda>period_start.
            await (sync (toISOString env (get_opt subscription ''current_period_end''))) (\<lambda>period_end.
            await (saveSubscription env
                     \<lparr>sd_user_id = cust_user_id customer,
                      sd_customer_id = cust_id customer,
                      sd_dodo_subscription_id = subscription_id,
                      sd_product_id = js_or (get_opt subscription ''product'') (JStr []),
                      sd_price_id = js_or (get_opt subscription ''price'') (JStr []),
                      sd_status = ''active'',
                      sd_current_period_start = period_start,
                      sd_current_period_end = period_end,
                      sd_cancel_at_period_end =
                        js_or (get_opt subscription ''cancel_at_period_end'') (JBool False),
                      sd_metadata = js_or (get_opt subscription ''metadata'') (JObj [])\<rparr>) (\<lambda>saved.
            resolve ''Subscription activated and saved'')))))
       (\<lambda>error. resolve ''Error processing subscription activation'')))"

definition handleSubscriptionOnHold :: "env \<Rightarrow> jsval \<Rightarrow> string io" where
  "handleSubscriptionOnHold env event =
     await (sync (data_object event)) (\<lambda>subscription.
     await (sync (get subscription ''id'')) (\<lambda>subscription_id.
     await (updateSubscription env subscription_id
              (no_updates\<lparr>upd_status := JStr ''on_hold''\<rparr>)) (\<lambda>updated.
     resolve ''Subscription marked as on hold'')))"

definition handleSubscriptionRenewed :: "env \<Rightarrow> jsval \<Rightarrow> string io" where
  "handleSubscriptionRenewed env event =
     await (sync (data_object event)) (\<lambda>subscription.
     await (sync (get subscription ''id'')) (\<lambda>subscription_id.
     await (sync (toISOString env (get_opt subscription ''current_period_start''))) (\<lambda>period_start.
     await (sync (toISOString env (get_opt subscription ''current_period_end''))) (\<lambda>period_end.
     await (updateSubscription env subscription_id
              (no_updates\<lparr>upd_status := JStr ''active'',
                          upd_current_period_start := Some period_start,
                          upd_current_period_end := Some period_end\<rparr>)) (\<lambda>updated.
     resolve ''Subscription renewal recorded'')))))"

definition handleSubscriptionPlanChanged :: "env \<Rightarrow> jsval \<Rightarrow> string io" where
  "handleSubscriptionPlanChanged env event =
     await (sync (data_object event)) (\<lambda>subscription.
     await (sync (get subscription ''id'')) (\<lambda>subscription_id.
     await (updateSubscription env subscription_id
              (no_updates\<lparr>upd_status := get_opt subscription ''status'',
                          upd_metadata := js_or (get_opt subscription ''metadata'') (JObj [])\<rparr>)) (\<lambda>updated.
     resolve ''Subscription plan change recorded'')))"

definition handleSubscriptionCancelled :: "env \<Rightarrow> jsval \<Rightarrow> string io" where
  "handleSubscriptionCancelled env event =
     await (sync (data_object event)) (\<lambda>subscription.
     await (sync (get subscription ''id'')) (\<lambda>subscription_id.
     await (updateSubscription env subscription_id
              (no_updates\<lparr>upd_status := JStr ''cancelled'',
                          upd_cancel_at_period_end := JBool True\<rparr>)) (\<lambda>updated.
     resolve ''Subscription cancellation recorded'')))"

definition handleSubscriptionFailed :: "env \<Rightarrow> jsval \<Rightarrow> string io" where
  "handleSubscriptionFailed env event =
     await (sync (data_object event)) (\<lambda>subscription.
     await (sync (get subscription ''id'')) (\<lambda>subscription_id.
     await (updateSubscription env subscription_id
              (no_updates\<lparr>upd_status := JStr ''failed''\<rparr>)) (\<lambda>updated.
     resolve ''Subscription failure recorded'')))"

definition handleSubscriptionExpired :: "env \<Rightarrow> jsval \<Rightarrow> string io" where
  "handleSubscriptionExpired env event =
     await (sync (data_object event)) (\<lambda>subscription.
     await (sync (get subscription ''id'')) (\<lambda>subscription_id.
     await (updateSubscription env subscription_id
              (no_updates\<lparr>upd_status := JStr ''expired''\<rparr>)) (\<lambda>updated.
     resolve ''Subscription expiration recorded'')))"

definition handleRefundSucceeded :: "jsval \<Rightarrow> string io" where
  "handleRefundSucceeded event =
     await (sync (data_object event)) (\<lambda>refund.
     await (sync (get refund ''id'')) (\<lambda>refund_id.
     resolve ''Refund success recorded''))"

definition handleRefundFailed :: "jsval \<Rightarrow> string io" where
  "handleRefundFailed event =
     await (sync (data_object event)) (\<lambda>refund.
     await (sync (get refund ''id'')) (\<lambda>refund_id.
     resolve ''Refund failure recorded''))"

definition handleDisputeEvent :: "env \<Rightarrow> jsval \<Rightarrow> string io" where
  "handleDisputeEvent env event =
     await (sync (data_object event)) (\<lambda>dispute.
     await (sync (get dispute ''id'')) (\<lambda>dispute_id.
     resolve (''Dispute '' @ js_String env (get_opt event ''type'') @ '' recorded'')))"

definition handleLicenseKeyCreated :: "jsval \<Rightarrow> string io" where
  "handleLicenseKeyCreated event =
     await (sync (data_object event)) (\<lambda>license_key.
     await (sync (get license_key ''id'')) (\<lambda>license_key_id.
     resolve ''License key creation recorded''))"

definition payment_types :: "string list" where
  "payment_types =
     [''payment.succeeded'', ''payment.completed'', ''payment.failed'', ''payment.declined'',
      ''payment.processing'', ''payment.pending'', ''payment.cancelled'']"

definition dispute_types :: "string list" where
  "dispute_types =
     [''dispute.opened'', ''dispute.expired'', ''dispute.accepted'', ''dispute.cancelled'',
      ''dispute.challenged'', ''dispute.won'', ''dispute.lost'']"

text \<open>
  The \<^verbatim>\<open>switch (event.type)\<close> of \<^verbatim>\<open>handleWebhook\<close>: the value of \<^verbatim>\<open>result\<close>, as its
  message (\<open>None\<close> for the \<^verbatim>\<open>undefined\<close> that \<^verbatim>\<open>processPaymentWebhook\<close> returns). A case
  matches a string only (\<^verbatim>\<open>===\<close>).
\<close>

definition dispatch :: "env \<Rightarrow> jsval \<Rightarrow> jsval \<Rightarrow> string option io" where
  "dispatch env event etype =
     (case etype of
        JStr t \<Rightarrow>
          if t \<in> set payment_types
          then await (processPaymentWebhook env event) (\<lambda>result. resolve None)
          else if t = ''subscription.active''
          then await (handleSubscriptionActive env event) (\<lambda>result. resolve (Some result))
          else if t = ''subscription.on_hold''
          then await (handleSubscriptionOnHold env event) (\<lambda>result. resolve (Some result))
          else if t = ''subscription.renewed''
          then await (handleSubscriptionRenewed env event) (\<lambda>result. resolve (Some result))
          else if t = ''subscription.plan_changed''
          then await (handleSubscriptionPlanChanged env event) (\<lambda>result. resolve (Some result))
          else if t = ''subscription.cancelled''
          then await (handleSubscriptionCancelled env event) (\<lambda>result. resolve (Some result))
          else if t = ''subscription.failed''
          then await (handleSubscriptionFailed env event) (\<lambda>result. resolve (Some result))
          else if t = ''subscription.expired''
          then await (handleSubscriptionExpired env event) (\<lambda>result. resolve (Some result))
          else if t = ''refund.succeeded''
          then await (handleRefundSucceeded event) (\<lambda>result. resolve (Some result))
          else if t = ''refund.failed''
          then await (handleRefundFailed event) (\<lambda>result. resolve (Some result))
          else if t \<in> set dispute_types
          then await (handleDisputeEvent env event) (\<lambda>result. resolve (Some result))
          else if t = ''license_key.created''
          then await (handleLicenseKeyCreated event) (\<lambda>result. resolve (Some result))
          else resolve (Some ''Event logged but not processed'')
      | _ \<Rightarrow> resolve (Some ''Event logged but not processed''))"

record response =
  success :: bool
  error :: "string option"
  message :: "string option"

text \<open>
  \<^verbatim>\<open>signature && !verifyWebhookSignature(body, signature)\<close>: an absent signature and the
  empty string are falsy, and then the verifier is not called.
\<close>

definition signature_rejected :: "env \<Rightarrow> string \<Rightarrow> string option \<Rightarrow> exn + bool" where
  "signature_rejected env body signature =
     (case signature of
        None \<Rightarrow> Inr False
      | Some s \<Rightarrow>
          if s = [] then Inr False
          else (case verifyWebhookSignature env body s of
                  Inl err \<Rightarrow> Inl err
                | Inr valid \<Rightarrow> Inr (\<not> valid)))"

text \<open>The body of the \<^verbatim>\<open>try\<close> block of \<^verbatim>\<open>handleWebhook\<close>.\<close>

definition handleWebhook_try :: "env \<Rightarrow> string \<Rightarrow> string option \<Rightarrow> response io" where
  "handleWebhook_try env body signature =
     await (sync (signature_rejected env body signature)) (\<lambda>rejected.
     if rejected
     then resolve \<lparr>success = False, error = Some ''Invalid signature'', message = None\<rparr>
     else
       await (sync (JSON_parse env body)) (\<lambda>event.
       await (sync (get event ''type'')) (\<lambda>etype.
       await (logPaymentEvent env
                \<lparr>el_event_type = etype,
                 el_event_data = event,
                 el_dodo_event_id = get_opt event ''id'',
                 el_processed = None,
                 el_error_message = None\<rparr>) (\<lambda>eventLog.
       await (dispatch env event etype) (\<lambda>result.
       await (markEventProcessed env (pe_id eventLog)) (\<lambda>marked.
       resolve \<lparr>success = True, error = None, message = result\<rparr>))))))"

definition handleWebhook :: "env \<Rightarrow> string \<Rightarrow> string option \<Rightarrow> db \<Rightarrow> response \<times> db" where
  "handleWebhook env body signature d =
     (case handleWebhook_try env body signature d of
        (Inr result, d') \<Rightarrow> (result, d')
      | (Inl err, d') \<Rightarrow>
          (\<lparr>success = False, error = Some (exn_message err), message = None\<rparr>, d'))"

section \<open>A sample deployment\<close>

text \<open>
  A configuration, a store and some request bodies on which the definitions are run. The
  keyed digest is a stand-in of the right length, \<open>sample_parse\<close> is \<^verbatim>\<open>JSON.parse\<close> on the
  sample bodies, the provider API is unreachable, and the store takes booleans and the
  instants of the years 1 to 9999.
\<close>

definition sample_hmac :: "string \<Rightarrow> string \<Rightarrow> buffer" where
  "sample_hmac key payload = of_nat (length key) # of_nat (length payload) # replicate 30 0"

definition body_active :: string where
  "body_active = ''{\"id\":\"evt_1\",\"type\":\"subscription.active\",\"data\":{\"object\":{\"id\":\"sub_1\",\"customer\":\"cus_1\",\"status\":\"active\",\"current_period_start\":1700000000,\"current_period_end\":1702592000}}}''"

definition event_active :: jsval where
  "event_active =
     JObj [(''id'', JStr ''evt_1''), (''type'', JStr ''subscription.active''),
           (''data'', JObj [(''object'',
              JObj [(''id'', JStr ''sub_1''), (''customer'', JStr ''cus_1''),
                    (''status'', JStr ''active''),
                    (''current_period_start'', JNum 1700000000),
                    (''current_period_end'', JNum 1702592000)])])]"

definition body_reactivated :: string where
  "body_reactivated = ''{\"id\":\"evt_2\",\"type\":\"subscription.active\",\"data\":{\"object\":{\"id\":\"sub_1\",\"customer\":\"cus_1\",\"status\":\"active\",\"current_period_start\":1702592000,\"current_period_end\":1705270400}}}''"

definition event_reactivated :: jsval where
  "event_reactivated =
     JObj [(''id'', JStr ''evt_2''), (''type'', JStr ''subscription.active''),
           (''data'', JObj [(''object'',
              JObj [(''id'', JStr ''sub_1''), (''customer'', JStr ''cus_1''),
                    (''status'', JStr ''active''),
                    (''current_period_start'', JNum 1702592000),
                    (''current_period_end'', JNum 1705270400)])])]"

definition body_stranger :: string where
  "body_stranger = ''{\"id\":\"evt_3\",\"type\":\"subscription.active\",\"data\":{\"object\":{\"id\":\"sub_2\",\"customer\":\"cus_404\"}}}''"

definition event_stranger :: jsval where
  "event_stranger =
     JObj [(''id'', JStr ''evt_3''), (''type'', JStr ''subscription.active''),
           (''data'', JObj [(''object'',
              JObj [(''id'', JStr ''sub_2''), (''customer'', JStr ''cus_404'')])])]"

definition body_invoice :: string where
  "body_invoice = ''{\"id\":\"evt_4\",\"type\":\"invoice.created\"}''"

definition event_invoice :: jsval where
  "event_invoice = JObj [(''id'', JStr ''evt_4''), (''type'', JStr ''invoice.created'')]"

definition body_on_hold :: string where
  "body_on_hold = ''{\"id\":\"evt_5\",\"type\":\"subscription.on_hold\",\"data\":{\"object\":{\"id\":\"sub_404\"}}}''"

definition event_on_hold :: jsval where
  "event_on_hold =
     JObj [(''id'', JStr ''evt_5''), (''type'', JStr ''subscription.on_hold''),
           (''data'', JObj [(''object'', JObj [(''id'', JStr ''sub_404'')])])]"

definition body_pending :: string where
  "body_pending = ''{\"id\":\"evt_6\",\"type\":\"payment.pending\",\"data\":{\"object\":{\"payment_id\":\"pay_1\",\"amount\":500}}}''"

definition event_pending :: jsval where
  "event_pending =
     JObj [(''id'', JStr ''evt_6''), (''type'', JStr ''payment.pending''),
           (''data'', JObj [(''object'',
              JObj [(''payment_id'', JStr ''pay_1''), (''amount'', JNum 500)])])]"

definition body_malformed :: string where
  "body_malformed = ''{\"id\":''"

definition sample_parse :: "string \<Rightarrow> exn + jsval" where
  "sample_parse body =
     (if body = body_active then Inr event_active
      else if body = body_reactivated then Inr event_reactivated
      else if body = body_stranger then Inr event_stranger
      else if body = body_invoice then Inr event_invoice
      else if body = body_on_hold then Inr event_on_hold
      else if body = body_pending then Inr event_pending
      else Inl (SyntaxError ''Unexpected end of JSON input''))"

definition sample_env :: env where
  "sample_env =
     \<lparr>webhookSecret = Some ''whsec_test'',
      apiKey = ''test_key'',
      createHmac_sha256 = sample_hmac,
      JSON_parse = sample_parse,
      JSON_stringify = (\<lambda>v. []),
      fetch = (\<lambda>url. Inl (TypeError ''fetch failed'')),
      Date_now = 1700000000000,
      render_text = (\<lambda>v. []),
      parse_number = (\<lambda>v. None),
      boolean_input = (\<lambda>v. None),
      timestamptz_input = (\<lambda>t. - 62135596800000 \<le> t \<and> t < 253402300800000)\<rparr>"

definition sample_db :: db where
  "sample_db =
     \<lparr>customers = [\<lparr>cust_id = 1, cust_user_id = Some 7, cust_dodo_customer_id = ''cus_1''\<rparr>],
      subscriptions = [],
      payment_events = [],
      payments = [],
      faults = []\<rparr>"

text \<open>What \<^verbatim>\<open>handleSubscriptionActive\<close> passes to \<^verbatim>\<open>saveSubscription\<close> for \<open>event_active\<close>.\<close>

definition sample_subscription :: subscription_data where
  "sample_subscription =
     \<lparr>sd_user_id = Some 7, sd_customer_id = 1, sd_dodo_subscription_id = JStr ''sub_1'',
      sd_product_id = JStr [], sd_price_id = JStr [], sd_status = ''active'',
      sd_current_period_start = 1700000000000, sd_current_period_end = 1702592000000,
      sd_cancel_at_period_end = JBool False, sd_metadata = JObj []\<rparr>"

text \<open>The event data the payment handlers build for a failed payment \<^verbatim>\<open>pay_2\<close>.\<close>

definition sample_failure :: payment_event_data where
  "sample_failure =
     \<lparr>ev_payment_id = JStr ''pay_2'', ev_status = JStr ''failed'', ev_amount = JNum 1200,
      ev_currency = JStr ''EUR'', ev_customer_id = JStr ''cus_1'',
      ev_failure_reason = JStr ''card_declined'', ev_metadata = JObj []\<rparr>"

section \<open>Names for the statements and their proofs\<close>

text \<open>
  The row \<^verbatim>\<open>logPaymentEvent\<close> inserts for an event of type \<open>t\<close> when \<^verbatim>\<open>handleWebhook\<close>
  calls it: not processed, never retried.
\<close>

definition log_row :: "env \<Rightarrow> db \<Rightarrow> string \<Rightarrow> jsval \<Rightarrow> payment_event" where
  "log_row env d t event =
     \<lparr>pe_id = gen_random_uuid (map pe_id (payment_events d)),
      event_type = t,
      event_data = RawEvent event,
      dodo_event_id = text_column env (get_opt event ''id''),
      processed = False,
      processed_at = None,
      error_message = None,
      retry_count = 0\<rparr>"

text \<open>The case labels of the \<^verbatim>\<open>switch\<close> in \<^verbatim>\<open>handleWebhook\<close>.\<close>

definition dispatched_types :: "string list" where
  "dispatched_types =
     payment_types @
     [''subscription.active'', ''subscription.on_hold'', ''subscription.renewed'',
      ''subscription.plan_changed'', ''subscription.cancelled'', ''subscription.failed'',
      ''subscription.expired'', ''refund.succeeded'', ''refund.failed''] @
     dispute_types @ [''license_key.created'']"

text \<open>The \<^verbatim>\<open>eventData\<close> that \<^verbatim>\<open>processPaymentWebhook\<close> builds from \<^verbatim>\<open>data.object\<close>.\<close>

definition payment_event_data_of :: "jsval \<Rightarrow> payment_event_data" where
  "payment_event_data_of paymentData =
     \<lparr>ev_payment_id = js_or (get_opt paymentData ''payment_id'') (get_opt paymentData ''id''),
      ev_status = get_opt paymentData ''status'',
      ev_amount = get_opt paymentData ''amount'',
      ev_currency = get_opt paymentData ''currency'',
      ev_customer_id = get_opt paymentData ''customer_id'',
      ev_failure_reason = get_opt paymentData ''failure_reason'',
      ev_metadata = js_or (get_opt paymentData ''metadata'') (JObj [])\<rparr>"

text \<open>
  Two shapes of effect on the event log, for a computation started with the log \<open>pe0\<close>
  and the coming faults a suffix of \<open>fs0\<close>: it leaves the log as it is, or it leaves it
  as it is when it throws and appends one audit row with a fresh key when it returns.
\<close>

definition unlogged :: "payment_event list \<Rightarrow> pg_error option list \<Rightarrow> db \<Rightarrow> bool" where
  "unlogged pe0 fs0 d = (payment_events d = pe0 \<and> suffix (faults d) fs0)"

definition keeps :: "(db \<Rightarrow> bool) \<Rightarrow> (db \<Rightarrow> 'r \<times> db) \<Rightarrow> bool" where
  "keeps I m = (\<forall>d. I d \<longrightarrow> I (snd (m d)))"

definition logs_once :: "payment_event list \<Rightarrow> pg_error option list \<Rightarrow> 'a io \<Rightarrow> bool" where
  "logs_once pe0 fs0 m =
     (\<forall>d. unlogged pe0 fs0 d \<longrightarrow>
        (case m d of
           (Inl e, d') \<Rightarrow> unlogged pe0 fs0 d'
         | (Inr x, d') \<Rightarrow>
             suffix (faults d') fs0 \<and>
             (\<exists>row audit. payment_events d' = pe0 @ [row] \<and>
                    pe_id row = gen_random_uuid (map pe_id pe0) \<and>
                    event_data row = Audit audit)))"

section \<open>Running asynchronous code\<close>

lemma await_resolve [simp]: "await (resolve x) k d = k x d"
  by (simp add: await_def resolve_def)

lemma await_throw [simp]: "await (throw e) k d = (Inl e, d)"
  by (simp add: await_def throw_def)

lemma await_sync_Inr [simp]: "await (sync (Inr x)) k d = k x d"
  by (simp add: await_def sync_def)

lemma await_sync_Inl [simp]: "await (sync (Inl e)) k d = (Inl e, d)"
  by (simp add: await_def sync_def)

lemma try_catch_rethrow: "try_catch m (\<lambda>error. throw error) = m"
  by (rule ext) (simp add: try_catch_def throw_def split: prod.splits sum.splits)

section \<open>The webhook secret is read by the verifier only\<close>

lemmas branch_cong = if_cong option.case_cong sum.case_cong list.case_cong jsval.case_cong

lemma js_String_secret [simp]: "js_String (env\<lparr>webhookSecret := s\<rparr>) v = js_String env v"
  by (cases v) simp_all

lemma js_Number_secret [simp]: "js_Number (env\<lparr>webhookSecret := s\<rparr>) v = js_Number env v"
  by (cases v) simp_all

lemma text_column_secret [simp]: "text_column (env\<lparr>webhookSecret := s\<rparr>) = text_column env"
  by (simp add: text_column_def fun_eq_iff)

lemma boolean_column_secret [simp]:
  "boolean_column (env\<lparr>webhookSecret := s\<rparr>) = boolean_column env"
  by (simp add: boolean_column_def fun_eq_iff cong: branch_cong)

lemma updates_refused_secret [simp]:
  "updates_refused (env\<lparr>webhookSecret := s\<rparr>) = updates_refused env"
  by (simp add: updates_refused_def fun_eq_iff)

lemma toISOString_secret [simp]: "toISOString (env\<lparr>webhookSecret := s\<rparr>) = toISOString env"
  by (simp add: toISOString_def fun_eq_iff)

lemma saveSubscription_secret [simp]:
  "saveSubscription (env\<lparr>webhookSecret := s\<rparr>) = saveSubscription env"
  by (simp add: saveSubscription_def insert_subscription_def fun_eq_iff Let_def cong: branch_cong)

lemma updateSubscription_secret [simp]:
  "updateSubscription (env\<lparr>webhookSecret := s\<rparr>) = updateSubscription env"
  by (simp add: updateSubscription_def update_subscription_def apply_updates_def fun_eq_iff
      cong: branch_cong)

lemma getCustomerByDodoId_secret [simp]:
  "getCustomerByDodoId (env\<lparr>webhookSecret := s\<rparr>) = getCustomerByDodoId env"
  by (simp add: getCustomerByDodoId_def select_customer_def fun_eq_iff cong: branch_cong)

lemma logPaymentEvent_secret [simp]:
  "logPaymentEvent (env\<lparr>webhookSecret := s\<rparr>) = logPaymentEvent env"
  by (simp add: logPaymentEvent_def insert_event_log_def fun_eq_iff Let_def cong: branch_cong)

lemma markEventProcessed_secret [simp]:
  "markEventProcessed (env\<lparr>webhookSecret := s\<rparr>) = markEventProcessed env"
  by (simp add: markEventProcessed_def update_event_processed_def fun_eq_iff cong: branch_cong)

lemma savePaymentEvent_secret [simp]:
  "savePaymentEvent (env\<lparr>webhookSecret := s\<rparr>) = savePaymentEvent env"
  by (simp add: savePaymentEvent_def insert_payment_event_def fun_eq_iff Let_def
      cong: branch_cong)

lemma updatePaymentStatus_secret [simp]:
  "updatePaymentStatus (env\<lparr>webhookSecret := s\<rparr>) = updatePaymentStatus env"
  by (simp add: updatePaymentStatus_def select_payment_def update_payment_def
      insert_payment_def fun_eq_iff Let_def cong: branch_cong)

lemma getPaymentDetails_secret [simp]:
  "getPaymentDetails (env\<lparr>webhookSecret := s\<rparr>) = getPaymentDetails env"
  by (simp add: getPaymentDetails_def getBaseUrl_def fun_eq_iff cong: branch_cong)

lemma handlePaymentSuccess_secret [simp]:
  "handlePaymentSuccess (env\<lparr>webhookSecret := s\<rparr>) = handlePaymentSuccess env"
  by (simp add: handlePaymentSuccess_def fun_eq_iff Let_def cong: branch_cong)

lemma handlePaymentFailure_secret [simp]:
  "handlePaymentFailure (env\<lparr>webhookSecret := s\<rparr>) = handlePaymentFailure env"
  by (simp add: handlePaymentFailure_def fun_eq_iff Let_def cong: branch_cong)

lemma handlePaymentStatusUpdate_secret [simp]:
  "handlePaymentStatusUpdate (env\<lparr>webhookSecret := s\<rparr>) = handlePaymentStatusUpdate env"
  by (simp add: handlePaymentStatusUpdate_def fun_eq_iff Let_def cong: branch_cong)

lemma processPaymentWebhook_secret [simp]:
  "processPaymentWebhook (env\<lparr>webhookSecret := s\<rparr>) = processPaymentWebhook env"
  by (simp add: processPaymentWebhook_def fun_eq_iff Let_def cong: branch_cong)

lemma handlers_secret [simp]:
  "handleSubscriptionActive (env\<lparr>webhookSecret := s\<rparr>) = handleSubscriptionActive env"
  "handleSubscriptionOnHold (env\<lparr>webhookSecret := s\<rparr>) = handleSubscriptionOnHold env"
  "handleSubscriptionRenewed (env\<lparr>webhookSecret := s\<rparr>) = handleSubscriptionRenewed env"
  "handleSubscriptionPlanChanged (env\<lparr>webhookSecret := s\<rparr>) = handleSubscriptionPlanChanged env"
  "handleSubscriptionCancelled (env\<lparr>webhookSecret := s\<rparr>) = handleSubscriptionCancelled env"
  "handleSubscriptionFailed (env\<lparr>webhookSecret := s\<rparr>) = handleSubscriptionFailed env"
  "handleSubscriptionExpired (env\<lparr>webhookSecret := s\<rparr>) = handleSubscriptionExpired env"
  "handleDisputeEvent (env\<lparr>webhookSecret := s\<rparr>) = handleDisputeEvent env"
  by (simp_all add: handleSubscriptionActive_def handleSubscriptionOnHold_def
      handleSubscriptionRenewed_def handleSubscriptionPlanChanged_def
      handleSubscriptionCancelled_def handleSubscriptionFailed_def
      handleSubscriptionExpired_def handleDisputeEvent_def fun_eq_iff Let_def cong: branch_cong)

lemma dispatch_secret [simp]: "dispatch (env\<lparr>webhookSecret := s\<rparr>) = dispatch env"
  by (simp add: dispatch_def fun_eq_iff Let_def cong: branch_cong)

section \<open>Signature verification\<close>

lemma unhex_hex_digits: "\<forall>n \<in> {0..<16}. unhex (hex_char n) = Some n"
  by code_simp

lemma unhex_hex_char: "n < 16 \<Longrightarrow> unhex (hex_char n) = Some n"
  using unhex_hex_digits by simp

lemma high_nibble: "unat (b :: 8 word) div 16 < 16"
proof -
  have "unat b < 2 ^ LENGTH(8)" by (rule unsigned_less)
  then have "unat b < 256" by simp
  then show ?thesis by arith
qed

lemma hex_char_range: "n < 16 \<Longrightarrow> hex_char n \<in> set ''0123456789abcdef''"
  unfolding hex_char_def by (rule nth_mem) simp

lemma Buffer_from_hex_digest_hex_append:
  "Buffer_from_hex (digest_hex bs @ rest) = bs @ Buffer_from_hex rest"
proof (induction bs)
  case Nil
  then show ?case by (simp add: digest_hex_def)
next
  case (Cons b bs)
  have hi: "unat b div 16 < 16" by (rule high_nibble)
  have lo: "unat b mod 16 < 16" by simp
  from Cons show ?case
    by (simp add: digest_hex_def unhex_hex_char [OF hi] unhex_hex_char [OF lo]
        del: of_nat_add of_nat_mult)
qed

lemma Buffer_from_hex_digest_hex [simp]: "Buffer_from_hex (digest_hex bs) = bs"
  using Buffer_from_hex_digest_hex_append [of bs "[]"] by simp

lemma set_digest_hex: "set (digest_hex bs) \<subseteq> set ''0123456789abcdef''"
proof (induction bs)
  case Nil
  then show ?case by (simp add: digest_hex_def)
next
  case (Cons b bs)
  have hi: "unat b div 16 < 16" by (rule high_nibble)
  have lo: "unat b mod 16 < 16" by simp
  from Cons hex_char_range [OF hi] hex_char_range [OF lo] show ?case
    by (simp add: digest_hex_def)
qed

lemma replace_absent: "pat \<noteq> [] \<Longrightarrow> hd pat \<notin> set s \<Longrightarrow> replace pat rep s = s"
proof (induction s)
  case Nil
  then show ?case by simp
next
  case (Cons c cs)
  from Cons.prems have "\<not> prefix pat (c # cs)"
    by (cases pat) auto
  with Cons show ?case by simp
qed

lemma replace_digest_hex [simp]: "replace ''sha256='' [] (digest_hex bs) = digest_hex bs"
proof (rule replace_absent)
  show "''sha256='' \<noteq> []" by simp
  show "hd ''sha256='' \<notin> set (digest_hex bs)"
    using set_digest_hex [of bs] by auto
qed

lemma replace_prefix [simp]: "replace ''sha256='' [] (''sha256='' @ s) = s"
  by simp

lemma verifyWebhookSignature_configured:
  assumes "webhookSecret env = Some S" and "S \<noteq> []"
  shows "verifyWebhookSignature env B signature =
         Inr (Buffer_from_hex (replace ''sha256='' [] signature) = createHmac_sha256 env S B)"
  using assms by (auto simp: verifyWebhookSignature_def timingSafeEqual_def Let_def)

lemma verifyWebhookSignature_total: "\<exists>b. verifyWebhookSignature env B signature = Inr b"
  by (auto simp: verifyWebhookSignature_def timingSafeEqual_def Let_def
      split: option.splits sum.splits)

lemma trailing_garbage_accepted:
  assumes "webhookSecret env = Some S" and "S \<noteq> []"
  shows "verifyWebhookSignature env B (digest_hex (createHmac_sha256 env S B) @ ''zz'') = Inr True"
proof -
  have "replace ''sha256='' [] (digest_hex (createHmac_sha256 env S B) @ ''zz'')
        = digest_hex (createHmac_sha256 env S B) @ ''zz''"
    by (rule replace_absent) (use set_digest_hex [of "createHmac_sha256 env S B"] in auto)
  moreover have "Buffer_from_hex ''zz'' = []"
    by (simp add: unhex_def)
  ultimately show ?thesis
    using assms by (simp add: verifyWebhookSignature_configured Buffer_from_hex_digest_hex_append)
qed

text \<open>
  C2, amended: with a secret configured, the hex digest of the body verifies, also after
  \<^verbatim>\<open>sha256=\<close>; the hex digest of a body with another digest does not; and for every
  signature string the verifier returns a boolean, never an exception: whether the bytes that
  \<^verbatim>\<open>Buffer.from(_, 'hex')\<close> decodes from the signature (after the first \<^verbatim>\<open>sha256=\<close> is
  removed) are the digest, so \<^verbatim>\<open>false\<close> whenever their length differs from the digest's.
  A string that is not hexadecimal is decoded up to its first pair that is not, so it is
  refused unless that prefix is the digest.
\<close>

theorem C2_signature_verification:
  assumes "webhookSecret env = Some S" and "S \<noteq> []"
  shows "verifyWebhookSignature env B (digest_hex (createHmac_sha256 env S B)) = Inr True
       \<and> verifyWebhookSignature env B (''sha256='' @ digest_hex (createHmac_sha256 env S B)) = Inr True
       \<and> (createHmac_sha256 env S B' \<noteq> createHmac_sha256 env S B \<longrightarrow>
            verifyWebhookSignature env B (digest_hex (createHmac_sha256 env S B')) = Inr False)
       \<and> verifyWebhookSignature env B signature =
            Inr (Buffer_from_hex (replace ''sha256='' [] signature) = createHmac_sha256 env S B)
       \<and> (length (Buffer_from_hex (replace ''sha256='' [] signature))
             \<noteq> length (createHmac_sha256 env S B) \<longrightarrow>
            verifyWebhookSignature env B signature = Inr False)"
  using assms by (auto simp: verifyWebhookSignature_configured)

lemma sample_secret: "webhookSecret sample_env = Some ''whsec_test''"
  by (simp add: sample_env_def)

lemma sample_digest [simp]: "createHmac_sha256 sample_env = sample_hmac"
  by (simp add: sample_env_def)

lemma sample_digests_differ:
  "sample_hmac ''whsec_test'' body_on_hold \<noteq> sample_hmac ''whsec_test'' body_invoice"
  by (simp add: sample_hmac_def body_on_hold_def body_invoice_def)

text \<open>C2 on the sample deployment: the premises hold and the four outcomes are computed.\<close>

theorem C2_signature_verification_witness:
  "webhookSecret sample_env = Some ''whsec_test'' \<and> ''whsec_test'' \<noteq> []
   \<and> createHmac_sha256 sample_env ''whsec_test'' body_on_hold
       \<noteq> createHmac_sha256 sample_env ''whsec_test'' body_invoice
   \<and> length (Buffer_from_hex (replace ''sha256='' [] ''deadbeef''))
       \<noteq> length (createHmac_sha256 sample_env ''whsec_test'' body_invoice)
   \<and> verifyWebhookSignature sample_env body_invoice
        (digest_hex (createHmac_sha256 sample_env ''whsec_test'' body_invoice)) = Inr True
   \<and> verifyWebhookSignature sample_env body_invoice
        (digest_hex (createHmac_sha256 sample_env ''whsec_test'' body_on_hold)) = Inr False
   \<and> verifyWebhookSignature sample_env body_invoice ''deadbeef'' = Inr False"
proof -
  have s: "webhookSecret sample_env = Some ''whsec_test''" by (rule sample_secret)
  have n: "''whsec_test'' \<noteq> []" by simp
  have l: "length (Buffer_from_hex (replace ''sha256='' [] ''deadbeef''))
       \<noteq> length (createHmac_sha256 sample_env ''whsec_test'' body_invoice)"
    by (simp add: unhex_def sample_hmac_def)
  show ?thesis
    using s n l sample_digests_differ
      C2_signature_verification [OF s n, of body_invoice body_on_hold "''deadbeef''"]
    by (simp add: unhex_def sample_hmac_def)
qed

text \<open>
  C2 as stated fails: the hex digest followed by \<^verbatim>\<open>zz\<close> is not a hexadecimal string and is
  not the signature, and it verifies.
\<close>

theorem C2_counterexample:
  "verifyWebhookSignature sample_env body_invoice
     (digest_hex (createHmac_sha256 sample_env ''whsec_test'' body_invoice) @ ''zz'') = Inr True"
  by (rule trailing_garbage_accepted [OF sample_secret]) simp

section \<open>Requests that the store serves\<close>

lemma request_served [simp]: "faults d = [] \<Longrightarrow> request served d = served d"
  by (simp add: request_def)

lemma fold_max_ge: "(b::nat) \<le> fold max xs b"
proof (induction xs arbitrary: b)
  case Nil
  then show ?case by simp
next
  case (Cons a xs)
  have "b \<le> max a b" by simp
  also have "\<dots> \<le> fold max xs (max a b)" by (rule Cons.IH)
  finally show ?case by simp
qed

lemma fold_max_upper: "x \<in> set xs \<Longrightarrow> x \<le> fold max xs (b::nat)"
proof (induction xs arbitrary: b)
  case Nil
  then show ?case by simp
next
  case (Cons a xs)
  show ?case
  proof (cases "x = a")
    case True
    have "a \<le> max a b" by simp
    also have "\<dots> \<le> fold max xs (max a b)" by (rule fold_max_ge)
    finally show ?thesis using True by simp
  next
    case False
    with Cons show ?thesis by simp
  qed
qed

lemma gen_random_uuid_fresh: "gen_random_uuid used \<notin> set used"
  using fold_max_upper [of "gen_random_uuid used" used 0]
  by (auto simp: gen_random_uuid_def)

lemma get_JStr_object: "get v k = Inr (JStr t) \<Longrightarrow> v \<noteq> JUndefined \<and> v \<noteq> JNull"
  by (cases v) auto

lemma get_defined: "v \<noteq> JUndefined \<Longrightarrow> v \<noteq> JNull \<Longrightarrow> get v k = Inr (get_opt v k)"
  by (cases v) simp_all

lemma logPaymentEvent_served:
  assumes "faults d = []" and "text_column env etype = Some t"
    and "event \<noteq> JUndefined" and "event \<noteq> JNull"
  shows "logPaymentEvent env
           \<lparr>el_event_type = etype, el_event_data = event, el_dodo_event_id = get_opt event ''id'',
            el_processed = None, el_error_message = None\<rparr> d
         = (Inr (log_row env d t event),
            d\<lparr>payment_events := payment_events d @ [log_row env d t event]\<rparr>)"
  using assms
  by (simp add: logPaymentEvent_def insert_event_log_def await_query_def resolve_def
      log_row_def Let_def)

lemma markEventProcessed_served:
  assumes "faults d = []" and "payment_events d = old @ row # later"
    and "pe_id row \<notin> set (map pe_id old)" and "pe_id row \<notin> set (map pe_id later)"
  shows "markEventProcessed env (pe_id row) d
         = (Inr (row\<lparr>processed := True, processed_at := Some (Date_now env)\<rparr>),
            d\<lparr>payment_events :=
                old @ row\<lparr>processed := True, processed_at := Some (Date_now env)\<rparr> # later\<rparr>)"
proof -
  have none_old: "filter (\<lambda>r. pe_id r = pe_id row) old = []"
    using assms(3) by (simp add: filter_empty_conv) (metis imageI)
  have none_later: "filter (\<lambda>r. pe_id r = pe_id row) later = []"
    using assms(4) by (simp add: filter_empty_conv) (metis imageI)
  have same_old: "map (\<lambda>x. if pe_id x = pe_id row then f x else x) old = old" for f
    using assms(3) by (induction old) auto
  have same_later: "map (\<lambda>x. if pe_id x = pe_id row then f x else x) later = later" for f
    using assms(4) by (induction later) auto
  show ?thesis
    using assms(1,2)
    by (simp add: markEventProcessed_def update_event_processed_def await_query_def
        resolve_def none_old none_later same_old same_later)
qed

section \<open>The sample deployment, evaluated\<close>

lemmas model_defs =
  handleWebhook_def handleWebhook_try_def signature_rejected_def dispatch_def
  payment_types_def dispute_types_def
  processPaymentWebhook_def handlePaymentSuccess_def handlePaymentFailure_def
  handlePaymentStatusUpdate_def handlePostPaymentActions_def handlePostPaymentFailureActions_def
  handleSubscriptionActive_def handleSubscriptionOnHold_def
  data_object_def getPaymentDetails_def getBaseUrl_def
  logPaymentEvent_def insert_event_log_def markEventProcessed_def update_event_processed_def
  savePaymentEvent_def insert_payment_event_def updatePaymentStatus_def select_payment_def
  update_payment_def insert_payment_def getCustomerByDodoId_def select_customer_def
  saveSubscription_def insert_subscription_def updateSubscription_def update_subscription_def
  apply_updates_def no_updates_def updates_refused_def boolean_column_def
  await_def await_query_def try_catch_def sync_def resolve_def throw_def request_def single_def
  text_column_def toISOString_def js_or_def gen_random_uuid_def
  PGRST116_def unique_violation_def not_null_violation_def
  invalid_input_def datetime_out_of_range_def

lemmas sample_defs =
  sample_env_def sample_db_def sample_parse_def body_active_def body_reactivated_def
  body_stranger_def body_invoice_def body_on_hold_def body_pending_def body_malformed_def
  event_active_def event_reactivated_def event_stranger_def event_invoice_def
  event_on_hold_def event_pending_def sample_failure_def sample_subscription_def

lemma sample_parse_bodies:
  "JSON_parse sample_env body_stranger = Inr event_stranger"
  "JSON_parse sample_env body_invoice = Inr event_invoice"
  "JSON_parse sample_env body_on_hold = Inr event_on_hold"
  "JSON_parse sample_env body_malformed = Inl (SyntaxError ''Unexpected end of JSON input'')"
  by (simp_all add: sample_defs)

lemma sample_types:
  "get event_stranger ''type'' = Inr (JStr ''subscription.active'')"
  "get event_invoice ''type'' = Inr (JStr ''invoice.created'')"
  "get event_on_hold ''type'' = Inr (JStr ''subscription.on_hold'')"
  by (simp_all add: sample_defs)

lemma sample_served: "faults sample_db = []"
  by (simp add: sample_db_def)

lemma sample_log_row:
  "log_row sample_env sample_db t event =
     \<lparr>pe_id = 1, event_type = t, event_data = RawEvent event,
      dodo_event_id = text_column sample_env (get_opt event ''id''), processed = False,
      processed_at = None, error_message = None, retry_count = 0\<rparr>"
  by (simp add: log_row_def sample_db_def gen_random_uuid_def)

section \<open>What each operation does to the event log\<close>

lemma keeps_resolve [intro!]: "keeps I (resolve x)"
  by (simp add: keeps_def resolve_def)

lemma keeps_throw [intro!]: "keeps I (throw e)"
  by (simp add: keeps_def throw_def)

lemma keeps_sync [intro!]: "keeps I (sync r)"
  by (simp add: keeps_def sync_def)

lemma keeps_await [intro!]:
  assumes "keeps I m" and "\<And>x. keeps I (k x)"
  shows "keeps I (await m k)"
  unfolding keeps_def
proof (intro allI impI)
  fix d assume "I d"
  with assms(1) have "I (snd (m d))" by (simp add: keeps_def)
  with assms(2) show "I (snd (await m k d))"
    by (cases "m d") (auto simp: await_def keeps_def split: sum.splits)
qed

lemma keeps_try_catch [intro!]:
  assumes "keeps I m" and "\<And>e. keeps I (h e)"
  shows "keeps I (try_catch m h)"
  unfolding keeps_def
proof (intro allI impI)
  fix d assume "I d"
  with assms(1) have "I (snd (m d))" by (simp add: keeps_def)
  with assms(2) show "I (snd (try_catch m h d))"
    by (cases "m d") (auto simp: try_catch_def keeps_def split: sum.splits)
qed

lemma keeps_await_query [intro!]:
  assumes "keeps I q" and "\<And>r. keeps I (k r)"
  shows "keeps I (await_query q k)"
  unfolding keeps_def
proof (intro allI impI)
  fix d assume "I d"
  with assms(1) have "I (snd (q d))" by (simp add: keeps_def)
  with assms(2) show "I (snd (await_query q k d))"
    by (cases "q d") (auto simp: await_query_def keeps_def)
qed

lemma keeps_if [intro!]: "keeps I m \<Longrightarrow> keeps I n \<Longrightarrow> keeps I (if b then m else n)"
  by simp

lemma keeps_request:
  assumes "keeps (unlogged pe0 fs0) served"
  shows "keeps (unlogged pe0 fs0) (request served)"
  unfolding keeps_def
proof (intro allI impI)
  fix d assume I: "unlogged pe0 fs0 d"
  show "unlogged pe0 fs0 (snd (request served d))"
  proof (cases "faults d")
    case Nil
    with I assms show ?thesis by (simp add: request_def keeps_def)
  next
    case (Cons f rest)
    with I have I': "unlogged pe0 fs0 (d\<lparr>faults := rest\<rparr>)"
      by (auto simp: unlogged_def dest: suffix_ConsD)
    with assms have "unlogged pe0 fs0 (snd (served (d\<lparr>faults := rest\<rparr>)))"
      by (simp add: keeps_def)
    with I' Cons show ?thesis
      by (cases f) (simp_all add: request_def)
  qed
qed

lemma keeps_case_sum [intro!]:
  "(\<And>e. keeps I (l e)) \<Longrightarrow> (\<And>x. keeps I (r x)) \<Longrightarrow> keeps I (case_sum l r s)"
  by (cases s) simp_all

lemma keeps_case_option [intro!]:
  "keeps I n \<Longrightarrow> (\<And>x. keeps I (s x)) \<Longrightarrow> keeps I (case_option n s v)"
  by (cases v) simp_all

lemma keeps_let [intro!]: "(\<And>x. keeps I (f x)) \<Longrightarrow> keeps I (Let v f)"
  by (simp add: Let_def)

lemma queries_keep [intro!]:
  "keeps (unlogged pe0 fs0) (select_customer env dodoCustomerId)"
  "keeps (unlogged pe0 fs0) (insert_subscription env subscriptionData)"
  "keeps (unlogged pe0 fs0) (update_subscription env dodoSubscriptionId updates)"
  "keeps (unlogged pe0 fs0) (select_payment env paymentId)"
  "keeps (unlogged pe0 fs0) (update_payment env paymentId status)"
  "keeps (unlogged pe0 fs0) (insert_payment env paymentId status)"
  unfolding select_customer_def insert_subscription_def update_subscription_def
    select_payment_def update_payment_def insert_payment_def
  by (rule keeps_request; auto simp: keeps_def unlogged_def Let_def
      split: option.splits list.splits)+

lemma getCustomerByDodoId_keeps [intro!]:
  "keeps (unlogged pe0 fs0) (getCustomerByDodoId env dodoCustomerId)"
  unfolding getCustomerByDodoId_def by (intro keeps_await_query queries_keep) auto

lemma saveSubscription_keeps [intro!]:
  "keeps (unlogged pe0 fs0) (saveSubscription env subscriptionData)"
  unfolding saveSubscription_def by (intro keeps_await_query queries_keep) auto

lemma updateSubscription_keeps [intro!]:
  "keeps (unlogged pe0 fs0) (updateSubscription env dodoSubscriptionId updates)"
  unfolding updateSubscription_def by (intro keeps_await_query queries_keep) auto

lemma updatePaymentStatus_keeps [intro!]:
  "keeps (unlogged pe0 fs0) (updatePaymentStatus env paymentId status)"
  unfolding updatePaymentStatus_def by (intro keeps_await_query queries_keep) auto

lemma handlers_keep:
  "keeps (unlogged pe0 fs0) (handleSubscriptionActive env event)"
  "keeps (unlogged pe0 fs0) (handleSubscriptionOnHold env event)"
  "keeps (unlogged pe0 fs0) (handleSubscriptionRenewed env event)"
  "keeps (unlogged pe0 fs0) (handleSubscriptionPlanChanged env event)"
  "keeps (unlogged pe0 fs0) (handleSubscriptionCancelled env event)"
  "keeps (unlogged pe0 fs0) (handleSubscriptionFailed env event)"
  "keeps (unlogged pe0 fs0) (handleSubscriptionExpired env event)"
  "keeps (unlogged pe0 fs0) (handleRefundSucceeded event)"
  "keeps (unlogged pe0 fs0) (handleRefundFailed event)"
  "keeps (unlogged pe0 fs0) (handleDisputeEvent env event)"
  "keeps (unlogged pe0 fs0) (handleLicenseKeyCreated event)"
  unfolding handleSubscriptionActive_def handleSubscriptionOnHold_def
    handleSubscriptionRenewed_def handleSubscriptionPlanChanged_def
    handleSubscriptionCancelled_def handleSubscriptionFailed_def
    handleSubscriptionExpired_def handleRefundSucceeded_def handleRefundFailed_def
    handleDisputeEvent_def handleLicenseKeyCreated_def
  by auto

section \<open>The payment processor appends one audit row\<close>

lemma savePaymentEvent_logs_once: "logs_once pe0 fs0 (savePaymentEvent env eventData)"
  unfolding logs_once_def
proof (intro allI impI)
  fix d assume I: "unlogged pe0 fs0 d"
  have served: "case savePaymentEvent env eventData d0 of
                  (Inl e, d') \<Rightarrow> unlogged pe0 fs0 d'
                | (Inr x, d') \<Rightarrow> suffix (faults d') fs0 \<and>
                    (\<exists>row audit. payment_events d' = pe0 @ [row] \<and>
                           pe_id row = gen_random_uuid (map pe_id pe0) \<and>
                           event_data row = Audit audit)"
    if "unlogged pe0 fs0 d0" and "faults d0 = []" for d0
    using that
    by (auto simp: savePaymentEvent_def insert_payment_event_def await_query_def
        unlogged_def throw_def resolve_def Let_def split: option.splits)
  show "case savePaymentEvent env eventData d of
          (Inl e, d') \<Rightarrow> unlogged pe0 fs0 d'
        | (Inr x, d') \<Rightarrow> suffix (faults d') fs0 \<and>
            (\<exists>row audit. payment_events d' = pe0 @ [row] \<and>
                   pe_id row = gen_random_uuid (map pe_id pe0) \<and>
                   event_data row = Audit audit)"
  proof (cases "faults d")
    case Nil
    with I show ?thesis by (rule served)
  next
    case (Cons f rest)
    with I have I': "unlogged pe0 fs0 (d\<lparr>faults := rest\<rparr>)"
      by (auto simp: unlogged_def dest: suffix_ConsD)
    show ?thesis
    proof (cases f)
      case None
      with Cons I' show ?thesis
        by (auto simp: savePaymentEvent_def insert_payment_event_def await_query_def
            request_def unlogged_def throw_def resolve_def Let_def split: option.splits)
    next
      case (Some err)
      with Cons I' show ?thesis
        by (simp add: savePaymentEvent_def insert_payment_event_def await_query_def
            request_def throw_def)
    qed
  qed
qed

lemma logs_once_await:
  assumes "keeps (unlogged pe0 fs0) m" and "\<And>x. logs_once pe0 fs0 (k x)"
  shows "logs_once pe0 fs0 (await m k)"
  unfolding logs_once_def
proof (intro allI impI)
  fix d assume "unlogged pe0 fs0 d"
  with assms(1) have "unlogged pe0 fs0 (snd (m d))" by (simp add: keeps_def)
  with assms(2) show "case await m k d of
          (Inl e, d') \<Rightarrow> unlogged pe0 fs0 d'
        | (Inr x, d') \<Rightarrow> suffix (faults d') fs0 \<and>
            (\<exists>row audit. payment_events d' = pe0 @ [row] \<and>
                   pe_id row = gen_random_uuid (map pe_id pe0) \<and>
                   event_data row = Audit audit)"
    by (cases "m d") (auto simp: await_def logs_once_def split: sum.splits)
qed

lemma logs_once_save_then:
  "logs_once pe0 fs0 (await (savePaymentEvent env eventData) (\<lambda>saved. resolve u))"
  using savePaymentEvent_logs_once [of pe0 fs0 env eventData]
  by (auto simp: logs_once_def await_def resolve_def split: sum.splits prod.splits)

lemma logs_once_rethrow:
  "logs_once pe0 fs0 m \<Longrightarrow> logs_once pe0 fs0 (try_catch m (\<lambda>error. throw error))"
  by (auto simp: logs_once_def try_catch_def throw_def split: sum.splits prod.splits)

lemma logs_once_if:
  "logs_once pe0 fs0 m \<Longrightarrow> logs_once pe0 fs0 n \<Longrightarrow> logs_once pe0 fs0 (if b then m else n)"
  by simp

lemma logs_once_let: "(\<And>x. logs_once pe0 fs0 (f x)) \<Longrightarrow> logs_once pe0 fs0 (Let v f)"
  by (simp add: Let_def)

lemmas logs_once_rules =
  logs_once_rethrow logs_once_save_then logs_once_await logs_once_if logs_once_let

lemma handlePaymentSuccess_logs_once: "logs_once pe0 fs0 (handlePaymentSuccess env eventData)"
  unfolding handlePaymentSuccess_def handlePostPaymentActions_def
  by (intro logs_once_rules) auto

lemma handlePaymentFailure_logs_once: "logs_once pe0 fs0 (handlePaymentFailure env eventData)"
  unfolding handlePaymentFailure_def handlePostPaymentFailureActions_def
  by (intro logs_once_rules) auto

lemma handlePaymentStatusUpdate_logs_once:
  "logs_once pe0 fs0 (handlePaymentStatusUpdate env eventData)"
  unfolding handlePaymentStatusUpdate_def
  by (intro logs_once_rules) auto

lemma processPaymentWebhook_logs_once: "logs_once pe0 fs0 (processPaymentWebhook env event)"
  unfolding processPaymentWebhook_def
  by (intro logs_once_rules handlePaymentSuccess_logs_once handlePaymentFailure_logs_once
      handlePaymentStatusUpdate_logs_once) auto

section \<open>The pipeline of \<^verbatim>\<open>handleWebhook\<close>\<close>

lemma logs_once_then_resolve:
  "logs_once pe0 fs0 m \<Longrightarrow> logs_once pe0 fs0 (await m (\<lambda>result. resolve u))"
  by (auto simp: logs_once_def await_def resolve_def split: sum.splits prod.splits)

lemma dispatch_payment:
  "t \<in> set payment_types \<Longrightarrow> logs_once pe0 fs0 (dispatch env event (JStr t))"
  by (simp add: dispatch_def logs_once_then_resolve processPaymentWebhook_logs_once)

lemma dispatch_other:
  assumes "\<And>t. etype = JStr t \<Longrightarrow> t \<notin> set payment_types"
  shows "keeps (unlogged pe0 fs0) (dispatch env event etype)"
proof (cases etype)
  case (JStr t)
  with assms have "t \<notin> set payment_types" by simp
  with JStr show ?thesis
    unfolding dispatch_def by (auto intro!: handlers_keep)
qed (auto simp: dispatch_def)

lemma dispatch_throws:
  assumes "dispatch env event etype d = (Inl e, d')"
  shows "payment_events d' = payment_events d"
proof (cases "\<exists>t. etype = JStr t \<and> t \<in> set payment_types")
  case True
  then obtain t where "etype = JStr t" and "t \<in> set payment_types" by blast
  then have "logs_once (payment_events d) (faults d) (dispatch env event etype)"
    by (simp add: dispatch_payment)
  with assms show ?thesis
    by (auto simp: logs_once_def unlogged_def dest!: spec [of _ d])
next
  case False
  then have "keeps (unlogged (payment_events d) (faults d)) (dispatch env event etype)"
    by (intro dispatch_other) auto
  with assms show ?thesis
    by (auto simp: keeps_def unlogged_def dest!: spec [of _ d])
qed

lemma logPaymentEvent_Inr:
  assumes "logPaymentEvent env eventData d = (Inr row, d1)"
  shows "payment_events d1 = payment_events d @ [row]
       \<and> pe_id row = gen_random_uuid (map pe_id (payment_events d))
       \<and> processed row = (case el_processed eventData of None \<Rightarrow> False | Some b \<Rightarrow> b)
       \<and> retry_count row = 0"
  using assms
  by (auto simp: logPaymentEvent_def insert_event_log_def await_query_def request_def
      throw_def resolve_def Let_def split: list.splits option.splits if_splits)

lemma signature_accepted:
  "signature = None \<or> (\<exists>s. signature = Some s \<and> verifyWebhookSignature env body s = Inr True)
   \<Longrightarrow> signature_rejected env body signature = Inr False"
  by (auto simp: signature_rejected_def)

lemma log_row_fresh: "pe_id (log_row env d t event) \<notin> set (map pe_id (payment_events d))"
  by (simp only: log_row_def payment_event.simps gen_random_uuid_fresh not_False_eq_True)

lemma handleWebhook_logged:
  assumes "signature_rejected env body signature = Inr False"
    and "JSON_parse env body = Inr event"
    and "get event ''type'' = Inr (JStr t)"
    and "faults d = []"
  shows "handleWebhook_try env body signature d =
         await (dispatch env event (JStr t)) (\<lambda>result.
           await (markEventProcessed env (pe_id (log_row env d t event))) (\<lambda>marked.
             resolve \<lparr>success = True, error = None, message = result\<rparr>))
           (d\<lparr>payment_events := payment_events d @ [log_row env d t event]\<rparr>)"
proof -
  from assms(3) have ev: "event \<noteq> JUndefined" "event \<noteq> JNull"
    using get_JStr_object by blast+
  have tc: "text_column env (JStr t) = Some t"
    by (simp add: text_column_def)
  show ?thesis
    using assms(1,2,3)
    by (simp add: handleWebhook_try_def await_def [of "logPaymentEvent env x" for x]
        logPaymentEvent_served [OF assms(4) tc ev])
qed

lemma mark_logged:
  assumes "faults d = []"
  shows "markEventProcessed env (pe_id (log_row env d t event))
           (d\<lparr>payment_events := payment_events d @ [log_row env d t event]\<rparr>)
         = (Inr ((log_row env d t event)\<lparr>processed := True, processed_at := Some (Date_now env)\<rparr>),
            d\<lparr>payment_events := payment_events d @
               [(log_row env d t event)\<lparr>processed := True, processed_at := Some (Date_now env)\<rparr>]\<rparr>)"
  using markEventProcessed_served [where d = "d\<lparr>payment_events := payment_events d @ [log_row env d t event]\<rparr>"
      and old = "payment_events d" and row = "log_row env d t event" and later = "[]" and env = env]
    assms log_row_fresh [of env d t event]
  by simp

section \<open>Payments under the unique key\<close>






lemma js_or_undefined [simp]: "js_or JUndefined b = b"
  by (simp add: js_or_def)

lemma js_or_idem [simp]: "js_or (js_or a b) b = js_or a b"
  by (simp add: js_or_def)

section \<open>The claims about \<^verbatim>\<open>handleWebhook\<close>\<close>

lemma empty_signature_is_absent:
  "handleWebhook env body (Some []) d = handleWebhook env body None d"
  by (simp add: handleWebhook_def handleWebhook_try_def signature_rejected_def)

text \<open>The handlers without a \<^verbatim>\<open>catch\<close> pass on what \<^verbatim>\<open>updateSubscription\<close> throws.\<close>

lemma update_failure_propagates:
  assumes "data_object event = Inr subscription" and "get subscription ''id'' = Inr sid"
    and "\<And>updates. updateSubscription env sid updates d = (Inl e, d')"
  shows "handleSubscriptionOnHold env event d = (Inl e, d')"
    and "handleSubscriptionPlanChanged env event d = (Inl e, d')"
    and "handleSubscriptionCancelled env event d = (Inl e, d')"
    and "handleSubscriptionFailed env event d = (Inl e, d')"
    and "handleSubscriptionExpired env event d = (Inl e, d')"
  using assms
  by (simp_all add: handleSubscriptionOnHold_def handleSubscriptionPlanChanged_def
      handleSubscriptionCancelled_def handleSubscriptionFailed_def
      handleSubscriptionExpired_def await_def sync_def)

lemma verifyWebhookSignature_parse [simp]:
  "verifyWebhookSignature (env\<lparr>JSON_parse := parse\<rparr>) = verifyWebhookSignature env"
  by (simp add: verifyWebhookSignature_def fun_eq_iff Let_def cong: branch_cong)

text \<open>
  C3: for every body and every present signature that fails verification, \<^verbatim>\<open>handleWebhook\<close>
  returns \<^verbatim>\<open>{success: false, error: 'Invalid signature'}\<close> and the store is the one it was
  given: no event is logged and no handler runs. The body is not parsed: the outcome is the
  same whatever \<^verbatim>\<open>JSON.parse\<close> would do. A signature is present when the handler's own test
  \<^verbatim>\<open>signature && ...\<close> finds it so, which leaves out the empty string as it does
  \<^verbatim>\<open>undefined\<close> (the edge function passes \<^verbatim>\<open>signature || undefined\<close>).
\<close>

theorem C3_invalid_signature_rejected:
  assumes "signature = Some s" and "s \<noteq> []"
    and "verifyWebhookSignature env body s = Inr False"
  shows "handleWebhook (env\<lparr>JSON_parse := parse\<rparr>) body signature d
         = (\<lparr>success = False, error = Some ''Invalid signature'', message = None\<rparr>, d)"
  using assms
  by (simp add: handleWebhook_def handleWebhook_try_def signature_rejected_def resolve_def)

text \<open>C3 on the sample deployment: a signature of four bytes is refused, nothing is stored.\<close>

theorem C3_invalid_signature_rejected_witness:
  "verifyWebhookSignature sample_env body_invoice ''deadbeef'' = Inr False
   \<and> handleWebhook (sample_env\<lparr>JSON_parse := sample_parse\<rparr>) body_invoice (Some ''deadbeef'') sample_db
       = (\<lparr>success = False, error = Some ''Invalid signature'', message = None\<rparr>, sample_db)"
proof -
  have refused: "verifyWebhookSignature sample_env body_invoice ''deadbeef'' = Inr False"
    by (simp add: verifyWebhookSignature_configured [OF sample_secret] unhex_def sample_hmac_def)
  have present: "''deadbeef'' \<noteq> []" by simp
  show ?thesis
    using refused C3_invalid_signature_rejected [OF refl present refused, of sample_parse sample_db]
    by simp
qed

text \<open>
  C5: for every body that \<^verbatim>\<open>JSON.parse\<close> rejects, the signature being absent or valid,
  \<^verbatim>\<open>handleWebhook\<close> returns \<^verbatim>\<open>{success: false, error}\<close> with the message of the parse
  error, and the store is the one it was given: parsing comes before the insert into the
  event log, and nothing else is written either.
\<close>

theorem C5_malformed_body:
  assumes "signature = None \<or> (\<exists>s. signature = Some s \<and> verifyWebhookSignature env body s = Inr True)"
    and "JSON_parse env body = Inl e"
  shows "handleWebhook env body signature d
         = (\<lparr>success = False, error = Some (exn_message e), message = None\<rparr>, d)"
  using assms
  by (auto simp: handleWebhook_def handleWebhook_try_def signature_rejected_def)

text \<open>C5 on the sample deployment: a truncated body under its valid signature.\<close>

theorem C5_malformed_body_witness:
  "verifyWebhookSignature sample_env body_malformed
     (digest_hex (sample_hmac ''whsec_test'' body_malformed)) = Inr True
   \<and> JSON_parse sample_env body_malformed = Inl (SyntaxError ''Unexpected end of JSON input'')
   \<and> handleWebhook sample_env body_malformed
        (Some (digest_hex (sample_hmac ''whsec_test'' body_malformed))) sample_db
       = (\<lparr>success = False, error = Some ''Unexpected end of JSON input'', message = None\<rparr>,
          sample_db)"
proof -
  have valid: "verifyWebhookSignature sample_env body_malformed
     (digest_hex (sample_hmac ''whsec_test'' body_malformed)) = Inr True"
    by (simp add: verifyWebhookSignature_configured [OF sample_secret])
  then have signed: "Some (digest_hex (sample_hmac ''whsec_test'' body_malformed)) = None
      \<or> (\<exists>s. Some (digest_hex (sample_hmac ''whsec_test'' body_malformed)) = Some s
             \<and> verifyWebhookSignature sample_env body_malformed s = Inr True)"
    by simp
  show ?thesis
    using valid sample_parse_bodies(4)
      C5_malformed_body [OF signed sample_parse_bodies(4), of sample_db]
    by simp
qed

text \<open>
  C9: for every event whose type is a string that is no case label of the \<^verbatim>\<open>switch\<close>, the
  signature being absent or valid and the store serving its requests, \<^verbatim>\<open>handleWebhook\<close>
  returns \<^verbatim>\<open>{success: true, message: 'Event logged but not processed'}\<close>, and the store
  differs from the one it was given by exactly one row of \<^verbatim>\<open>payment_events\<close>: the event's,
  under a key no other row has, with \<^verbatim>\<open>processed = true\<close>.
\<close>

theorem C9_unrecognised_type_logged:
  assumes "signature = None \<or> (\<exists>s. signature = Some s \<and> verifyWebhookSignature env body s = Inr True)"
    and "JSON_parse env body = Inr event"
    and "get event ''type'' = Inr (JStr t)"
    and "t \<notin> set dispatched_types"
    and "faults d = []"
  shows "handleWebhook env body signature d
         = (\<lparr>success = True, error = None, message = Some ''Event logged but not processed''\<rparr>,
            d\<lparr>payment_events := payment_events d @
               [(log_row env d t event)\<lparr>processed := True, processed_at := Some (Date_now env)\<rparr>]\<rparr>)
       \<and> pe_id (log_row env d t event) \<notin> set (map pe_id (payment_events d))"
proof -
  have disp: "dispatch env event (JStr t) d' = (Inr (Some ''Event logged but not processed''), d')" for d'
    using assms(4) by (simp add: dispatch_def dispatched_types_def resolve_def)
  have fresh: "pe_id (log_row env d t event) \<notin> set (map pe_id (payment_events d))"
    by (simp only: log_row_def payment_event.simps gen_random_uuid_fresh not_False_eq_True)
  show ?thesis
    using fresh
    by (simp add: handleWebhook_def
        handleWebhook_logged [OF signature_accepted [OF assms(1)] assms(2,3,5)]
        await_def disp mark_logged [OF assms(5)] resolve_def)
qed

text \<open>C9 on the sample deployment: \<^verbatim>\<open>invoice.created\<close>.\<close>

theorem C9_unrecognised_type_logged_witness:
  "''invoice.created'' \<notin> set dispatched_types
   \<and> handleWebhook sample_env body_invoice None sample_db
       = (\<lparr>success = True, error = None, message = Some ''Event logged but not processed''\<rparr>,
          sample_db\<lparr>payment_events :=
            [\<lparr>pe_id = 1, event_type = ''invoice.created'', event_data = RawEvent event_invoice,
              dodo_event_id = Some ''evt_4'', processed = True,
              processed_at = Some 1700000000000, error_message = None, retry_count = 0\<rparr>]\<rparr>)"
proof -
  have unsigned: "(None :: string option) = None
      \<or> (\<exists>s. None = Some s \<and> verifyWebhookSignature sample_env body_invoice s = Inr True)"
    by simp
  have unknown: "''invoice.created'' \<notin> set dispatched_types"
    by (simp add: dispatched_types_def payment_types_def dispute_types_def)
  show ?thesis
    using unknown
      C9_unrecognised_type_logged [OF unsigned sample_parse_bodies(2) sample_types(2) unknown
        sample_served]
    by (simp add: sample_log_row) (simp add: sample_defs text_column_def)
qed

text \<open>
  C8: for every \<^verbatim>\<open>subscription.active\<close> event whose \<^verbatim>\<open>data.object\<close> names a customer that
  no row of \<^verbatim>\<open>customers\<close> has, the store serving its requests, the handler returns
  \<^verbatim>\<open>Customer not found\<close> without throwing and without changing the store, and
  \<^verbatim>\<open>handleWebhook\<close> returns success with that message; the store then differs by the
  event's log row only, marked processed, and holds the subscriptions it held.
\<close>

theorem C8_unknown_customer:
  assumes "signature = None \<or> (\<exists>s. signature = Some s \<and> verifyWebhookSignature env body s = Inr True)"
    and "JSON_parse env body = Inr event"
    and "get event ''type'' = Inr (JStr ''subscription.active'')"
    and "data_object event = Inr subscription"
    and "get subscription ''id'' = Inr subscription_id"
    and "filter (\<lambda>c. cust_dodo_customer_id c = js_String env (get_opt subscription ''customer''))
           (customers d) = []"
    and "faults d = []"
  shows "handleSubscriptionActive env event d = (Inr ''Customer not found'', d)
       \<and> handleWebhook env body signature d
         = (\<lparr>success = True, error = None, message = Some ''Customer not found''\<rparr>,
            d\<lparr>payment_events := payment_events d @
               [(log_row env d ''subscription.active'' event)
                  \<lparr>processed := True, processed_at := Some (Date_now env)\<rparr>]\<rparr>)
       \<and> subscriptions (snd (handleWebhook env body signature d)) = subscriptions d"
proof -
  have handler: "handleSubscriptionActive env event d' = (Inr ''Customer not found'', d')"
    if "faults d' = []" and "customers d' = customers d" for d'
    using that assms(4,5,6)
    by (simp add: handleSubscriptionActive_def getCustomerByDodoId_def select_customer_def
        await_query_def single_def PGRST116_def try_catch_def await_def sync_def resolve_def)
  have disp: "dispatch env event (JStr ''subscription.active'')
                (d\<lparr>payment_events := payment_events d @ [log_row env d ''subscription.active'' event]\<rparr>)
              = (Inr (Some ''Customer not found''),
                 d\<lparr>payment_events := payment_events d @ [log_row env d ''subscription.active'' event]\<rparr>)"
    using assms(7)
    by (simp add: dispatch_def payment_types_def await_def handler resolve_def)
  have whole: "handleWebhook env body signature d
         = (\<lparr>success = True, error = None, message = Some ''Customer not found''\<rparr>,
            d\<lparr>payment_events := payment_events d @
               [(log_row env d ''subscription.active'' event)
                  \<lparr>processed := True, processed_at := Some (Date_now env)\<rparr>]\<rparr>)"
    by (simp add: handleWebhook_def
        handleWebhook_logged [OF signature_accepted [OF assms(1)] assms(2,3,7)]
        await_def disp mark_logged [OF assms(7)] resolve_def)
  show ?thesis
    using handler [OF assms(7) refl] whole by simp
qed

text \<open>C8 on the sample deployment: an activation for the unknown customer \<^verbatim>\<open>cus_404\<close>.\<close>

theorem C8_unknown_customer_witness:
  "filter (\<lambda>c. cust_dodo_customer_id c = ''cus_404'') (customers sample_db) = []
   \<and> handleSubscriptionActive sample_env event_stranger sample_db
       = (Inr ''Customer not found'', sample_db)
   \<and> handleWebhook sample_env body_stranger None sample_db
       = (\<lparr>success = True, error = None, message = Some ''Customer not found''\<rparr>,
          sample_db\<lparr>payment_events :=
            [\<lparr>pe_id = 1, event_type = ''subscription.active'',
              event_data = RawEvent event_stranger,
              dodo_event_id = Some ''evt_3'', processed = True,
              processed_at = Some 1700000000000, error_message = None, retry_count = 0\<rparr>]\<rparr>)
   \<and> subscriptions (snd (handleWebhook sample_env body_stranger None sample_db)) = []"
proof -
  have unsigned: "(None :: string option) = None
      \<or> (\<exists>s. None = Some s \<and> verifyWebhookSignature sample_env body_stranger s = Inr True)"
    by simp
  have object: "data_object event_stranger
                = Inr (JObj [(''id'', JStr ''sub_2''), (''customer'', JStr ''cus_404'')])"
    by (simp add: data_object_def event_stranger_def)
  have ident: "get (JObj [(''id'', JStr ''sub_2''), (''customer'', JStr ''cus_404'')]) ''id''
               = Inr (JStr ''sub_2'')"
    by simp
  have stranger: "filter (\<lambda>c. cust_dodo_customer_id c = ''cus_404'') (customers sample_db) = []"
    by (simp add: sample_db_def)
  then have nobody: "filter (\<lambda>c. cust_dodo_customer_id c = js_String sample_env
             (get_opt (JObj [(''id'', JStr ''sub_2''), (''customer'', JStr ''cus_404'')]) ''customer''))
           (customers sample_db) = []"
    by simp
  show ?thesis
    using stranger
      C8_unknown_customer [OF unsigned sample_parse_bodies(1) sample_types(1) object ident
        nobody sample_served]
    by (simp add: sample_log_row) (simp add: sample_defs text_column_def)
qed

text \<open>
  C6: whenever the dispatched handler throws, after the event has been logged,
  \<^verbatim>\<open>handleWebhook\<close> returns \<^verbatim>\<open>{success: false, error}\<close> with the message of the exception,
  and the store is left as the handler left it: no request follows, so the event is not
  marked. Its row in \<^verbatim>\<open>payment_events\<close> is the one that was inserted, the only row under
  its key, with \<^verbatim>\<open>processed = false\<close> and \<^verbatim>\<open>retry_count = 0\<close>. The store may fail any
  request here.
\<close>

theorem C6_handler_throws:
  assumes "signature = None \<or> (\<exists>s. signature = Some s \<and> verifyWebhookSignature env body s = Inr True)"
    and "JSON_parse env body = Inr event"
    and "get event ''type'' = Inr etype"
    and "logPaymentEvent env
           \<lparr>el_event_type = etype, el_event_data = event, el_dodo_event_id = get_opt event ''id'',
            el_processed = None, el_error_message = None\<rparr> d = (Inr eventLog, d1)"
    and "dispatch env event etype d1 = (Inl e, d2)"
  shows "handleWebhook env body signature d
         = (\<lparr>success = False, error = Some (exn_message e), message = None\<rparr>, d2)
       \<and> filter (\<lambda>r. pe_id r = pe_id eventLog) (payment_events d2) = [eventLog]
       \<and> \<not> processed eventLog \<and> retry_count eventLog = 0"
proof -
  have response: "handleWebhook env body signature d
         = (\<lparr>success = False, error = Some (exn_message e), message = None\<rparr>, d2)"
    using signature_accepted [OF assms(1)] assms(2-5)
    by (simp add: handleWebhook_def handleWebhook_try_def await_def sync_def)
  from logPaymentEvent_Inr [OF assms(4)]
  have row: "payment_events d1 = payment_events d @ [eventLog]"
    "pe_id eventLog = gen_random_uuid (map pe_id (payment_events d))"
    "\<not> processed eventLog" "retry_count eventLog = 0"
    by simp_all
  have "pe_id eventLog \<notin> set (map pe_id (payment_events d))"
    unfolding row(2) by (rule gen_random_uuid_fresh)
  then have "filter (\<lambda>r. pe_id r = pe_id eventLog) (payment_events d) = []"
    by (simp add: filter_empty_conv) (metis imageI)
  with row(1) dispatch_throws [OF assms(5)]
  have "filter (\<lambda>r. pe_id r = pe_id eventLog) (payment_events d2) = [eventLog]"
    by simp
  with response row(3,4) show ?thesis by simp
qed

text \<open>
  C6 on the sample deployment: \<^verbatim>\<open>subscription.on_hold\<close> for a subscription that is not
  stored; the update finds no row and \<^verbatim>\<open>updateSubscription\<close> throws.
\<close>

theorem C6_handler_throws_witness:
  "handleWebhook sample_env body_on_hold None sample_db
     = (\<lparr>success = False,
         error = Some ''Failed to update subscription: JSON object requested, multiple (or no) rows returned'',
         message = None\<rparr>,
        sample_db\<lparr>payment_events :=
          [log_row sample_env sample_db ''subscription.on_hold'' event_on_hold]\<rparr>)
   \<and> filter (\<lambda>r. pe_id r = 1)
        [log_row sample_env sample_db ''subscription.on_hold'' event_on_hold]
       = [log_row sample_env sample_db ''subscription.on_hold'' event_on_hold]
   \<and> \<not> processed (log_row sample_env sample_db ''subscription.on_hold'' event_on_hold)
   \<and> retry_count (log_row sample_env sample_db ''subscription.on_hold'' event_on_hold) = 0"
proof -
  have unsigned: "(None :: string option) = None
      \<or> (\<exists>s. None = Some s \<and> verifyWebhookSignature sample_env body_on_hold s = Inr True)"
    by simp
  have defined: "event_on_hold \<noteq> JUndefined" "event_on_hold \<noteq> JNull"
    by (simp_all add: event_on_hold_def)
  have column: "text_column sample_env (JStr ''subscription.on_hold'') = Some ''subscription.on_hold''"
    by (simp add: text_column_def)
  note logged = logPaymentEvent_served [OF sample_served column defined]
  have thrown: "dispatch sample_env event_on_hold (JStr ''subscription.on_hold'')
          (sample_db\<lparr>payment_events := payment_events sample_db
             @ [log_row sample_env sample_db ''subscription.on_hold'' event_on_hold]\<rparr>)
        = (Inl (Error ''Failed to update subscription: JSON object requested, multiple (or no) rows returned''),
           sample_db\<lparr>payment_events := payment_events sample_db
             @ [log_row sample_env sample_db ''subscription.on_hold'' event_on_hold]\<rparr>)"
    by (simp add: model_defs sample_defs)
  show ?thesis
    using C6_handler_throws [OF unsigned sample_parse_bodies(3) sample_types(3) logged thrown]
    by (simp add: sample_log_row) (simp add: sample_db_def)
qed

text \<open>
  \<^verbatim>\<open>processPaymentWebhook\<close> hands succeeded and completed events to
  \<^verbatim>\<open>handlePaymentSuccess\<close>, failed and declined events to \<^verbatim>\<open>handlePaymentFailure\<close>, and
  passes on what they throw.
\<close>

lemma processPaymentWebhook_routes:
  assumes "get event ''type'' = Inr (JStr t)" and "data_object event = Inr paymentData"
    and "paymentData \<noteq> JUndefined" and "paymentData \<noteq> JNull"
  shows "t = ''payment.succeeded'' \<or> t = ''payment.completed'' \<Longrightarrow>
           processPaymentWebhook env event d
           = handlePaymentSuccess env (payment_event_data_of paymentData) d"
    and "t = ''payment.failed'' \<or> t = ''payment.declined'' \<Longrightarrow>
           processPaymentWebhook env event d
           = handlePaymentFailure env (payment_event_data_of paymentData) d"
proof -
  from assms(2) obtain data where data: "get event ''data'' = Inr data"
    "get data ''object'' = Inr paymentData"
    by (auto simp: data_object_def split: sum.splits)
  note pid = get_defined [OF assms(3,4), of "''payment_id''"]
  show "t = ''payment.succeeded'' \<or> t = ''payment.completed'' \<Longrightarrow>
           processPaymentWebhook env event d
           = handlePaymentSuccess env (payment_event_data_of paymentData) d"
    using assms(1) data pid
    by (auto simp: processPaymentWebhook_def try_catch_rethrow payment_event_data_of_def Let_def)
  show "t = ''payment.failed'' \<or> t = ''payment.declined'' \<Longrightarrow>
           processPaymentWebhook env event d
           = handlePaymentFailure env (payment_event_data_of paymentData) d"
    using assms(1) data pid
    by (auto simp: processPaymentWebhook_def try_catch_rethrow payment_event_data_of_def Let_def)
qed



text \<open>
  C4, amended: for every call whose body parses to an event with a string type, the signature
  being absent or valid and the store serving its requests, \<^verbatim>\<open>logPaymentEvent\<close> inserts
  exactly one row holding the event, whatever the type and whether or not a handler exists
  or succeeds. It is the only row the call adds to \<^verbatim>\<open>payment_events\<close>, except that a payment
  event whose processing succeeds adds a second one, the audit row of \<^verbatim>\<open>savePaymentEvent\<close>.
\<close>

theorem C4_event_log_inserts:
  assumes "signature = None \<or> (\<exists>s. signature = Some s \<and> verifyWebhookSignature env body s = Inr True)"
    and "JSON_parse env body = Inr event"
    and "get event ''type'' = Inr (JStr t)"
    and "faults d = []"
  shows "\<exists>logged. event_data logged = RawEvent event \<and>
           (if t \<in> set payment_types \<and> success (fst (handleWebhook env body signature d))
            then \<exists>audit a. event_data audit = Audit a \<and>
                   payment_events (snd (handleWebhook env body signature d))
                     = payment_events d @ [logged, audit]
            else payment_events (snd (handleWebhook env body signature d))
                   = payment_events d @ [logged])"
proof -
  define row where "row = log_row env d t event"
  define row' where "row' = row\<lparr>processed := True, processed_at := Some (Date_now env)\<rparr>"
  define d1 where "d1 = d\<lparr>payment_events := payment_events d @ [row]\<rparr>"
  have raw: "event_data row = RawEvent event" "event_data row' = RawEvent event"
    by (simp_all add: row_def row'_def log_row_def)
  have fresh: "pe_id row \<notin> set (map pe_id (payment_events d))"
    unfolding row_def by (rule log_row_fresh)
  have start: "unlogged (payment_events d @ [row]) [] d1"
    using assms(4) by (simp add: unlogged_def d1_def)
  have run: "handleWebhook_try env body signature d =
         await (dispatch env event (JStr t)) (\<lambda>result.
           await (markEventProcessed env (pe_id row)) (\<lambda>marked.
             resolve \<lparr>success = True, error = None, message = result\<rparr>)) d1"
    unfolding row_def d1_def
    by (rule handleWebhook_logged [OF signature_accepted [OF assms(1)] assms(2,3,4)])
  obtain r d2 where disp: "dispatch env event (JStr t) d1 = (r, d2)"
    by (cases "dispatch env event (JStr t) d1")
  show ?thesis
  proof (cases r)
    case (Inl e)
    have "unlogged (payment_events d @ [row]) [] d2"
    proof (cases "t \<in> set payment_types")
      case True
      from dispatch_payment [OF True, of "payment_events d @ [row]" "[]" env event] start disp Inl
      show ?thesis by (auto simp: logs_once_def dest!: spec [of _ d1])
    next
      case False
      then have "keeps (unlogged (payment_events d @ [row]) []) (dispatch env event (JStr t))"
        by (intro dispatch_other) simp
      with start disp show ?thesis by (auto simp: keeps_def dest!: spec [of _ d1])
    qed
    moreover have "handleWebhook env body signature d
          = (\<lparr>success = False, error = Some (exn_message e), message = None\<rparr>, d2)"
      using disp Inl by (simp add: handleWebhook_def run await_def)
    ultimately show ?thesis
      using raw(1) by (auto simp: unlogged_def)
  next
    case (Inr result)
    show ?thesis
    proof (cases "t \<in> set payment_types")
      case True
      from dispatch_payment [OF True, of "payment_events d @ [row]" "[]" env event] start disp Inr
      obtain audit a where audit: "faults d2 = []"
        "payment_events d2 = payment_events d @ [row, audit]"
        "pe_id audit = gen_random_uuid (map pe_id (payment_events d @ [row]))"
        "event_data audit = Audit a"
        by (auto simp: logs_once_def dest!: spec [of _ d1])
      have "pe_id audit \<noteq> pe_id row"
        using gen_random_uuid_fresh [of "map pe_id (payment_events d @ [row])"] audit(3) by auto
      then have later: "pe_id row \<notin> set (map pe_id [audit])" by auto
      from audit(2) have split: "payment_events d2 = payment_events d @ row # [audit]" by simp
      have mark: "markEventProcessed env (pe_id row) d2
             = (Inr row', d2\<lparr>payment_events := payment_events d @ row' # [audit]\<rparr>)"
        unfolding row'_def
        by (rule markEventProcessed_served [OF audit(1) split fresh later])
      have "handleWebhook env body signature d
            = (\<lparr>success = True, error = None, message = result\<rparr>,
               d2\<lparr>payment_events := payment_events d @ row' # [audit]\<rparr>)"
        using disp Inr by (simp add: handleWebhook_def run await_def mark resolve_def)
      with True raw(2) audit(4) show ?thesis by auto
    next
      case False
      then have "keeps (unlogged (payment_events d @ [row]) []) (dispatch env event (JStr t))"
        by (intro dispatch_other) simp
      with start disp have still: "faults d2 = []" "payment_events d2 = payment_events d @ row # []"
        by (auto simp: keeps_def unlogged_def dest!: spec [of _ d1])
      have mark: "markEventProcessed env (pe_id row) d2
             = (Inr row', d2\<lparr>payment_events := payment_events d @ row' # []\<rparr>)"
        unfolding row'_def
        by (rule markEventProcessed_served [OF still fresh]) simp
      have "handleWebhook env body signature d
            = (\<lparr>success = True, error = None, message = result\<rparr>,
               d2\<lparr>payment_events := payment_events d @ row' # []\<rparr>)"
        using disp Inr by (simp add: handleWebhook_def run await_def mark resolve_def)
      with False raw(2) show ?thesis by auto
    qed
  qed
qed

text \<open>C4 on the sample deployment: an event that no handler knows adds its one row, a pending
  payment its row and the audit row.\<close>

theorem C4_event_log_inserts_witness:
  "''invoice.created'' \<notin> set payment_types \<and> payment_events sample_db = []
   \<and> (\<exists>logged. event_data logged = RawEvent event_invoice
        \<and> payment_events (snd (handleWebhook sample_env body_invoice None sample_db)) = [logged])
   \<and> ''payment.pending'' \<in> set payment_types
   \<and> success (fst (handleWebhook sample_env body_pending None sample_db))
   \<and> (\<exists>logged audit a. event_data logged = RawEvent event_pending
        \<and> event_data audit = Audit a
        \<and> payment_events (snd (handleWebhook sample_env body_pending None sample_db))
            = [logged, audit])"
proof -
  have unsigned: "(None :: string option) = None
      \<or> (\<exists>s. None = Some s \<and> verifyWebhookSignature sample_env body s = Inr True)" for body
    by simp
  have other: "''invoice.created'' \<notin> set payment_types"
    and payment: "''payment.pending'' \<in> set payment_types"
    by (simp_all add: payment_types_def)
  have empty: "payment_events sample_db = []"
    by (simp add: sample_db_def)
  have pending: "JSON_parse sample_env body_pending = Inr event_pending"
    "get event_pending ''type'' = Inr (JStr ''payment.pending'')"
    by (simp_all add: sample_defs)
  have succeeds: "success (fst (handleWebhook sample_env body_pending None sample_db))"
    by (simp add: model_defs sample_defs Let_def)
  show ?thesis
    using other payment empty succeeds
      C4_event_log_inserts [OF unsigned sample_parse_bodies(2) sample_types(2) sample_served]
      C4_event_log_inserts [OF unsigned pending sample_served]
    by simp
qed

text \<open>
  C4 as stated fails: one call with the valid JSON body of a \<^verbatim>\<open>payment.pending\<close> event, on an
  empty event log, leaves two rows in \<^verbatim>\<open>payment_events\<close>: the event and the audit row of
  \<^verbatim>\<open>savePaymentEvent\<close>.
\<close>

theorem C4_counterexample:
  "payment_events sample_db = []
   \<and> map event_type (payment_events (snd (handleWebhook sample_env body_pending None sample_db)))
       = [''payment.pending'', ''payment.pending'']
   \<and> length (payment_events (snd (handleWebhook sample_env body_pending None sample_db))) = 2"
  by (simp add: model_defs sample_defs Let_def)

text \<open>
  C1 fails on the code: \<^verbatim>\<open>saveSubscription\<close> inserts. For the known customer \<^verbatim>\<open>cus_1\<close>, the
  first \<^verbatim>\<open>subscription.active\<close> event for \<^verbatim>\<open>sub_1\<close> stores the subscription; the same event
  delivered again, and a later activation of \<^verbatim>\<open>sub_1\<close> with a new period, both run into the
  unique key of \<^verbatim>\<open>dodo_subscription_id\<close>: the insert fails, the handler answers
  \<^verbatim>\<open>Error processing subscription activation\<close>, and the stored row keeps the first period.
\<close>

theorem C1_redelivery_is_insert_only:
  "(let (r1, d1) = handleWebhook sample_env body_active None sample_db;
        (r2, d2) = handleWebhook sample_env body_active None d1;
        (r3, d3) = handleWebhook sample_env body_reactivated None d2
    in message r1 = Some ''Subscription activated and saved''
     \<and> message r2 = Some ''Error processing subscription activation''
     \<and> message r3 = Some ''Error processing subscription activation''
     \<and> fst (saveSubscription sample_env sample_subscription d1)
         = Inl (Error (''Failed to save subscription: '' @
                  pg_message (unique_violation ''subscriptions_dodo_subscription_id_key'')))
     \<and> subscriptions d2 = subscriptions d1 \<and> subscriptions d3 = subscriptions d1
     \<and> map dodo_subscription_id (subscriptions d1) = [''sub_1'']
     \<and> map current_period_end (subscriptions d3) = [Some 1702592000000])"
  by (simp add: model_defs sample_defs Let_def)

text \<open>
  C10: for every body, store and configuration, a call of \<^verbatim>\<open>handleWebhook\<close> without a
  signature passes the signature test whatever webhook secret is configured, and gives the
  same response and the same store under every configured secret and under none: the
  verifier is the only reader of the secret and it is not called. The call is handled as a
  signed one is where no secret is configured and every signature verifies. What it does is
  the whole pipeline and nothing before it: the body is parsed, the type of the event is
  read, the event is logged, dispatched on its type and marked as processed, each step run
  on the store the step before left; the first step that throws ends the call with its
  message as the error, and otherwise the response is the success of the handler's result.
  So no response of such a call comes from the signature test.
\<close>

theorem C10_absent_signature_skips_verification:
  "signature_rejected (env\<lparr>webhookSecret := secret\<rparr>) body None = Inr False
   \<and> handleWebhook (env\<lparr>webhookSecret := secret\<rparr>) body None d = handleWebhook env body None d
   \<and> handleWebhook env body None d
       = handleWebhook (env\<lparr>webhookSecret := None\<rparr>) body (Some (c # cs)) d
   \<and> handleWebhook env body None d =
      (case JSON_parse env body of
         Inl err \<Rightarrow> (\<lparr>success = False, error = Some (exn_message err), message = None\<rparr>, d)
       | Inr event \<Rightarrow>
           (case get event ''type'' of
              Inl err \<Rightarrow> (\<lparr>success = False, error = Some (exn_message err), message = None\<rparr>, d)
            | Inr etype \<Rightarrow>
                (case logPaymentEvent env
                        \<lparr>el_event_type = etype, el_event_data = event,
                         el_dodo_event_id = get_opt event ''id'',
                         el_processed = None, el_error_message = None\<rparr> d of
                   (Inl err, d1) \<Rightarrow>
                     (\<lparr>success = False, error = Some (exn_message err), message = None\<rparr>, d1)
                 | (Inr eventLog, d1) \<Rightarrow>
                     (case dispatch env event etype d1 of
                        (Inl err, d2) \<Rightarrow>
                          (\<lparr>success = False, error = Some (exn_message err), message = None\<rparr>, d2)
                      | (Inr result, d2) \<Rightarrow>
                          (case markEventProcessed env (pe_id eventLog) d2 of
                             (Inl err, d3) \<Rightarrow>
                               (\<lparr>success = False, error = Some (exn_message err),
                                 message = None\<rparr>, d3)
                           | (Inr marked, d3) \<Rightarrow>
                               (\<lparr>success = True, error = None, message = result\<rparr>, d3))))))"
  by (simp add: handleWebhook_def handleWebhook_try_def signature_rejected_def
      verifyWebhookSignature_def await_def sync_def resolve_def
      split: sum.splits prod.splits)

text \<open>
  C10 on the sample deployment, where a secret is configured: the activation of \<^verbatim>\<open>sub_1\<close>
  is refused under a signature of four bytes, and without a signature it is processed, the
  subscription stored and the event marked, as it is when no secret is configured.
\<close>

theorem C10_absent_signature_skips_verification_witness:
  "webhookSecret sample_env = Some ''whsec_test''
   \<and> handleWebhook sample_env body_active (Some ''deadbeef'') sample_db
       = (\<lparr>success = False, error = Some ''Invalid signature'', message = None\<rparr>, sample_db)
   \<and> fst (handleWebhook sample_env body_active None sample_db)
       = \<lparr>success = True, error = None, message = Some ''Subscription activated and saved''\<rparr>
   \<and> map dodo_subscription_id
         (subscriptions (snd (handleWebhook sample_env body_active None sample_db))) = [''sub_1'']
   \<and> map processed
         (payment_events (snd (handleWebhook sample_env body_active None sample_db))) = [True]
   \<and> handleWebhook (sample_env\<lparr>webhookSecret := None\<rparr>) body_active None sample_db
       = handleWebhook sample_env body_active None sample_db"
proof -
  have refused: "verifyWebhookSignature sample_env body_active ''deadbeef'' = Inr False"
    by (simp add: verifyWebhookSignature_configured [OF sample_secret] unhex_def sample_hmac_def)
  have rejected: "handleWebhook sample_env body_active (Some ''deadbeef'') sample_db
       = (\<lparr>success = False, error = Some ''Invalid signature'', message = None\<rparr>, sample_db)"
    by (simp add: handleWebhook_def handleWebhook_try_def signature_rejected_def resolve_def
        refused)
  have unsigned: "fst (handleWebhook sample_env body_active None sample_db)
      = \<lparr>success = True, error = None, message = Some ''Subscription activated and saved''\<rparr>
    \<and> map dodo_subscription_id
         (subscriptions (snd (handleWebhook sample_env body_active None sample_db))) = [''sub_1'']
    \<and> map processed
         (payment_events (snd (handleWebhook sample_env body_active None sample_db))) = [True]"
    by (simp add: model_defs sample_defs Let_def)
  have independent:
    "handleWebhook (sample_env\<lparr>webhookSecret := None\<rparr>) body_active None sample_db
       = handleWebhook sample_env body_active None sample_db"
    using C10_absent_signature_skips_verification
      [where env = sample_env and secret = None and body = body_active and d = sample_db]
    by (simp only:)
  show ?thesis
    using rejected unsigned independent sample_secret by (simp only: simp_thms)
qed
end
